theory Spec2Isabelle
  imports Complex_Main
begin

section \<open>Python values used by the detection engine\<close>

text \<open>
  The engine of \<^verbatim>\<open>ai_cloud_threat_hunter.py\<close> is embedded function by function.
  Arrival times, rates and scores are finite floats and are modelled as real numbers; the
  floats of the rate model (\<open>alpha\<close>, mean, variance) may also be NaN and have the type
  \<open>pyfloat\<close> below. Python integers are modelled as \<open>int\<close>, strings as \<open>string\<close>, \<open>Optional[str]\<close> as
  \<open>string option\<close>, a \<open>deque\<close> as a list with the oldest element first, and a
  \<open>defaultdict\<close> as a map together with the default returned for a missing key.
  The readings of the clocks are inputs: \<open>now\<close> is the value of \<^verbatim>\<open>time.time()\<close> read by
  \<^verbatim>\<open>ingest_event\<close>, and the environment record below holds what the code obtains from the
  interpreter rather than from its own state.
\<close>

datatype py_error = KeyError | TypeError

text \<open>\<^verbatim>\<open>str(n)\<close> for an integer, as the f-strings of the alert details use it.\<close>

definition digit_char :: "nat \<Rightarrow> char" where
  "digit_char d = ''0123456789'' ! (d mod 10)"

fun str_nat :: "nat \<Rightarrow> string" where
  "str_nat n = (if n < 10 then [digit_char n] else str_nat (n div 10) @ [digit_char (n mod 10)])"

declare str_nat.simps [simp del]

definition str_int :: "int \<Rightarrow> string" where
  "str_int i = (if i < 0 then CHR ''-'' # str_nat (nat (- i)) else str_nat (nat i))"

text \<open>\<^verbatim>\<open>sub in s\<close> on strings: \<open>sub\<close> occurs in \<open>s\<close> as a contiguous substring.\<close>

fun starts_with :: "string \<Rightarrow> string \<Rightarrow> bool" where
  "starts_with [] s = True"
| "starts_with (c # cs) [] = False"
| "starts_with (c # cs) (d # ds) = (c = d \<and> starts_with cs ds)"

fun str_contains :: "string \<Rightarrow> string \<Rightarrow> bool" where
  "str_contains sub [] = (sub = [])"
| "str_contains sub (d # ds) = (starts_with sub (d # ds) \<or> str_contains sub ds)"

text \<open>Truthiness of an \<^verbatim>\<open>Optional[str]\<close>: \<^verbatim>\<open>None\<close> and the empty string are false.\<close>

fun truthy :: "string option \<Rightarrow> bool" where
  "truthy None = False"
| "truthy (Some s) = (s \<noteq> [])"

text \<open>
  \<^verbatim>\<open>round(x, 2)\<close>: the nearest multiple of 1/100, a tie going to the even one.
\<close>

definition py_round2 :: "real \<Rightarrow> real" where
  "py_round2 x =
     (let y = x * 100; f = \<lfloor>y\<rfloor>; d = y - of_int f
      in of_int (if d < 1/2 then f else if 1/2 < d then f + 1
                 else if even f then f else f + 1) / 100)"

text \<open>Reading a \<^verbatim>\<open>defaultdict\<close>: the stored value, or the default of the factory.\<close>

definition dd_get :: "('k \<rightharpoonup> 'v) \<Rightarrow> 'v \<Rightarrow> 'k \<Rightarrow> 'v" where
  "dd_get m d k = (case m k of None \<Rightarrow> d | Some v \<Rightarrow> v)"

section \<open>Events\<close>

text \<open>
  An event is the dictionary \<^verbatim>\<open>ev\<close> handed to \<^verbatim>\<open>ingest_event\<close>: a key is absent, or
  bound to \<^verbatim>\<open>None\<close>, or bound to a string (\<^verbatim>\<open>parse_syslog\<close> binds \<^verbatim>\<open>ip\<close>, \<^verbatim>\<open>user\<close> and
  \<^verbatim>\<open>event\<close> to \<^verbatim>\<open>None\<close>).
\<close>

type_synonym event = "string \<rightharpoonup> string option"

definition ev_get :: "event \<Rightarrow> string \<Rightarrow> string option" where
  "ev_get ev k = (case ev k of None \<Rightarrow> None | Some v \<Rightarrow> v)"

definition ev_get_default :: "event \<Rightarrow> string \<Rightarrow> string \<Rightarrow> string option" where
  "ev_get_default ev k d = (case ev k of None \<Rightarrow> Some d | Some v \<Rightarrow> v)"

definition SUSPICIOUS_PATHS :: "string list" where
  "SUSPICIOUS_PATHS =
     [''/wp-login.php'', ''/wp-admin'', ''/admin'', ''/phpmyadmin'', ''/.env'', ''/config.php'',
      ''/.git'', ''/.DS_Store'', ''/server-status'', ''/actuator'', ''/jenkins'',
      ''/boaform/admin/formLogin'']"

section \<open>Floats that may be NaN\<close>

text \<open>
  A float of the rate model is a number or NaN (\<^verbatim>\<open>--ewma-alpha nan\<close> is accepted by the
  argument parser). Arithmetic with NaN gives NaN and every comparison with NaN is false.
  Infinities and rounding are not modelled. \<open>fmax a b\<close> is the builtin \<^verbatim>\<open>max(a, b)\<close>, which
  returns \<open>b\<close> when \<open>b > a\<close> and \<open>a\<close> otherwise, so \<^verbatim>\<open>max(nan, 1e-6)\<close> is NaN. \<open>fsqrt\<close> is
  \<^verbatim>\<open>math.sqrt\<close> and \<open>fdiv\<close> is \<^verbatim>\<open>/\<close>: the first raises on a negative number and the
  second on a zero divisor; at their only call sites, in \<^verbatim>\<open>zscore\<close>, the argument of
  the square root is NaN or at least \<open>1e-6\<close> and the division is guarded by \<open>std > 0\<close>.
\<close>

datatype pyfloat = NaN | Fin real

fun fadd :: "pyfloat \<Rightarrow> pyfloat \<Rightarrow> pyfloat" where
  "fadd (Fin a) (Fin b) = Fin (a + b)"
| "fadd _ _ = NaN"

fun fsub :: "pyfloat \<Rightarrow> pyfloat \<Rightarrow> pyfloat" where
  "fsub (Fin a) (Fin b) = Fin (a - b)"
| "fsub _ _ = NaN"

fun fmul :: "pyfloat \<Rightarrow> pyfloat \<Rightarrow> pyfloat" where
  "fmul (Fin a) (Fin b) = Fin (a * b)"
| "fmul _ _ = NaN"

fun fdiv :: "pyfloat \<Rightarrow> pyfloat \<Rightarrow> pyfloat" where
  "fdiv (Fin a) (Fin b) = Fin (a / b)"
| "fdiv _ _ = NaN"

fun fsq :: "pyfloat \<Rightarrow> pyfloat" where
  "fsq (Fin a) = Fin (a\<^sup>2)"
| "fsq NaN = NaN"

fun fsqrt :: "pyfloat \<Rightarrow> pyfloat" where
  "fsqrt (Fin a) = Fin (sqrt a)"
| "fsqrt NaN = NaN"

fun fgt :: "pyfloat \<Rightarrow> pyfloat \<Rightarrow> bool" where
  "fgt (Fin a) (Fin b) = (a > b)"
| "fgt _ _ = False"

definition fmax :: "pyfloat \<Rightarrow> pyfloat \<Rightarrow> pyfloat" where
  "fmax a b = (if fgt b a then b else a)"

section \<open>EWMA rate model\<close>

record ewma =
  alpha :: pyfloat
  mean :: pyfloat
  var :: pyfloat
  initialized :: bool

definition new_ewma :: "pyfloat \<Rightarrow> ewma" where
  "new_ewma a = \<lparr>alpha = a, mean = Fin 0, var = Fin 1, initialized = False\<rparr>"

definition update :: "ewma \<Rightarrow> pyfloat \<Rightarrow> ewma" where
  "update m x =
     (if \<not> initialized m then m\<lparr>mean := x, var := Fin 1, initialized := True\<rparr>
      else let prev = mean m
           in m\<lparr>mean := fadd (fmul (alpha m) x) (fmul (fsub (Fin 1) (alpha m)) (mean m)),
                var := fadd (fmul (alpha m) (fsq (fsub x prev)))
                            (fmul (fsub (Fin 1) (alpha m)) (var m))\<rparr>)"

definition zscore :: "ewma \<Rightarrow> pyfloat \<Rightarrow> pyfloat" where
  "zscore m x =
     (let std = fsqrt (fmax (var m) (Fin (1 / 1000000)))
      in if fgt std (Fin 0) then fdiv (fsub x (mean m)) std else Fin 0)"

section \<open>Alerts, statistics and the engine state\<close>

record alert =
  ts :: string
  severity :: string
  kind :: string
  ip :: "string option"
  detail :: string
  score :: real

text \<open>
  \<^verbatim>\<open>per_ip_count\<close> is a dictionary whose insertion order \<^verbatim>\<open>to_report\<close> observes (the sort
  is stable), hence an association list; \<^verbatim>\<open>last_alerts\<close> is a \<^verbatim>\<open>deque(maxlen=100)\<close>.
\<close>

record stats =
  total_lines :: int
  total_events :: int
  total_alerts :: int
  per_ip_count :: "(string \<times> int) list"
  last_alerts :: "alert list"

record hunter =
  window :: int
  threshold :: int
  ewma_alpha :: pyfloat
  stats :: stats
  events_by_ip :: "string \<rightharpoonup> real list"
  failed_logins_by_ip :: "string \<rightharpoonup> real list"
  status_by_ip :: "string \<rightharpoonup> (string option \<rightharpoonup> real list)"
  rate_model :: "string \<rightharpoonup> ewma"

text \<open>
  What a call reads from outside the engine: \<open>utcnow k\<close> is
  \<^verbatim>\<open>datetime.utcnow().isoformat()\<close> as read while the alert numbered \<open>k\<close> is built
  (\<open>k\<close> the value of \<^verbatim>\<open>total_alerts\<close> before it), and \<open>fmt2\<close>, \<open>fmt3\<close> are the float
  formats \<^verbatim>\<open>:.2f\<close> and \<^verbatim>\<open>:.3f\<close>. The line printed when \<^verbatim>\<open>rich\<close> is missing is not
  part of the state and is left out.
\<close>

record env =
  utcnow :: "int \<Rightarrow> string"
  fmt2 :: "real \<Rightarrow> string"
  fmt3 :: "real \<Rightarrow> string"

definition init_stats :: stats where
  "init_stats = \<lparr>total_lines = 0, total_events = 0, total_alerts = 0,
                  per_ip_count = [], last_alerts = []\<rparr>"

definition init_hunter :: "int \<Rightarrow> int \<Rightarrow> pyfloat \<Rightarrow> hunter" where
  "init_hunter w th a =
     \<lparr>window = w, threshold = th, ewma_alpha = a, stats = init_stats,
      events_by_ip = Map.empty, failed_logins_by_ip = Map.empty,
      status_by_ip = Map.empty, rate_model = Map.empty\<rparr>"

text \<open>\<^verbatim>\<open>deque.append\<close> with \<^verbatim>\<open>maxlen=100\<close>: a full deque drops its oldest element.\<close>

definition ring_append :: "alert list \<Rightarrow> alert \<Rightarrow> alert list" where
  "ring_append xs a = (if 100 \<le> length xs then tl xs @ [a] else xs @ [a])"

text \<open>\<^verbatim>\<open>d[k] += 1\<close> on a \<^verbatim>\<open>defaultdict(int)\<close>: a new key goes to the end.\<close>

fun count_bump :: "(string \<times> int) list \<Rightarrow> string \<Rightarrow> (string \<times> int) list" where
  "count_bump [] k = [(k, 1)]"
| "count_bump ((k', c) # kvs) k =
     (if k' = k then (k', c + 1) # kvs else (k', c) # count_bump kvs k)"

definition alert_emit ::
  "env \<Rightarrow> hunter \<Rightarrow> string \<Rightarrow> string \<Rightarrow> string option \<Rightarrow> string \<Rightarrow> real \<Rightarrow> hunter" where
  "alert_emit e s sev knd i det sc =
     (let a = \<lparr>ts = utcnow e (total_alerts (stats s)), severity = sev, kind = knd, ip = i,
               detail = det, score = py_round2 sc\<rparr>
      in s\<lparr>stats := (stats s)\<lparr>total_alerts := total_alerts (stats s) + 1,
                              last_alerts := ring_append (last_alerts (stats s)) a\<rparr>\<rparr>)"

fun prune_window :: "int \<Rightarrow> real \<Rightarrow> real list \<Rightarrow> real list" where
  "prune_window w now [] = []"
| "prune_window w now (t # dq) =
     (if now - t > of_int w then prune_window w now dq else t # dq)"

definition record_request :: "hunter \<Rightarrow> string option \<Rightarrow> string option \<Rightarrow> real \<Rightarrow> hunter" where
  "record_request s i status now =
     (case i of None \<Rightarrow> s
      | Some a \<Rightarrow>
          if a = [] then s
          else let dq = prune_window (window s) now (dd_get (events_by_ip s) [] a @ [now]);
                   inner = dd_get (status_by_ip s) Map.empty a;
                   dqs = prune_window (window s) now (dd_get inner [] status @ [now])
               in s\<lparr>events_by_ip := (events_by_ip s)(a \<mapsto> dq),
                    stats := (stats s)\<lparr>per_ip_count := count_bump (per_ip_count (stats s)) a\<rparr>,
                    status_by_ip := (status_by_ip s)(a \<mapsto> inner(status \<mapsto> dqs))\<rparr>)"

definition check_status_storm ::
  "env \<Rightarrow> hunter \<Rightarrow> string option \<Rightarrow> string \<Rightarrow> real \<Rightarrow> hunter" where
  "check_status_storm e s i status now =
     (case i of None \<Rightarrow> s
      | Some a \<Rightarrow>
          if a = [] then s
          else let inner = dd_get (status_by_ip s) Map.empty a;
                   dq = prune_window (window s) now (dd_get inner [] (Some status));
                   s1 = s\<lparr>status_by_ip := (status_by_ip s)(a \<mapsto> inner(Some status \<mapsto> dq))\<rparr>
               in if threshold s \<le> int (length dq)
                  then let sev = (if status = ''404'' then ''medium'' else ''high'')
                       in alert_emit e s1 sev (status @ ''_storm'') (Some a)
                            (str_int (int (length dq)) @ '' '' @ status @ ''s in ''
                               @ str_int (window s) @ ''s'')
                            (7 + of_int (int (length dq) - threshold s))
                  else s1)"

definition record_failed_login :: "hunter \<Rightarrow> string \<Rightarrow> real \<Rightarrow> hunter" where
  "record_failed_login s a now =
     (let dq = prune_window (window s) now (dd_get (failed_logins_by_ip s) [] a @ [now])
      in s\<lparr>failed_logins_by_ip := (failed_logins_by_ip s)(a \<mapsto> dq)\<rparr>)"

definition check_bruteforce :: "env \<Rightarrow> hunter \<Rightarrow> string \<Rightarrow> real \<Rightarrow> hunter" where
  "check_bruteforce e s a now =
     (let dq = prune_window (window s) now (dd_get (failed_logins_by_ip s) [] a);
          s1 = s\<lparr>failed_logins_by_ip := (failed_logins_by_ip s)(a \<mapsto> dq)\<rparr>
      in if threshold s \<le> int (length dq)
         then alert_emit e s1 ''critical'' ''bruteforce'' (Some a)
                (str_int (int (length dq)) @ '' failed logins in '' @ str_int (window s) @ ''s'')
                (9 + (1 / 2) * of_int (int (length dq) - threshold s))
         else s1)"

text \<open>
  In \<^verbatim>\<open>_check_rate_anomaly\<close> the test \<^verbatim>\<open>z > 3.0\<close> is false for a NaN \<open>z\<close>, so the alert
  and its score are built from a number only.
\<close>

definition check_rate_anomaly :: "env \<Rightarrow> hunter \<Rightarrow> string option \<Rightarrow> real \<Rightarrow> hunter" where
  "check_rate_anomaly e s i now =
     (case i of None \<Rightarrow> s
      | Some a \<Rightarrow>
          if a = [] then s
          else let dq = prune_window (window s) now (dd_get (events_by_ip s) [] a);
                   rate = real (length dq) / of_int (max (window s) 1);
                   model = update (dd_get (rate_model s) (new_ewma (ewma_alpha s)) a) (Fin rate);
                   z = zscore model (Fin rate);
                   s1 = s\<lparr>events_by_ip := (events_by_ip s)(a \<mapsto> dq),
                          rate_model := (rate_model s)(a \<mapsto> model)\<rparr>
               in (case z of
                     NaN \<Rightarrow> s1
                   | Fin zr \<Rightarrow>
                       if 3 < zr \<and> threshold s < int (length dq)
                       then alert_emit e s1 ''high'' ''rate_anomaly'' (Some a)
                              (''z='' @ fmt2 e zr @ '', rate='' @ fmt3 e rate @ '' req/s'')
                              (min 10 (75 / 10 + zr))
                       else s1))"

text \<open>
  \<^verbatim>\<open>ingest_event\<close>. \<^verbatim>\<open>ev['type']\<close> raises \<^verbatim>\<open>KeyError\<close> when the key is missing, and
  \<^verbatim>\<open>susp in path\<close> raises \<^verbatim>\<open>TypeError\<close> when \<^verbatim>\<open>path\<close> is bound to \<^verbatim>\<open>None\<close>; nothing in
  the program catches either, so the run ends there.
\<close>

definition ingest_event :: "env \<Rightarrow> hunter \<Rightarrow> event \<Rightarrow> real \<Rightarrow> py_error + hunter" where
  "ingest_event e s ev now =
     (let s0 = s\<lparr>stats := (stats s)\<lparr>total_events := total_events (stats s) + 1\<rparr>\<rparr>;
          i = ev_get ev ''ip''
      in case ev ''type'' of
           None \<Rightarrow> Inl KeyError
         | Some ty \<Rightarrow>
             if ty = Some ''nginx'' then
               (let path = ev_get_default ev ''path'' [];
                    status = ev_get_default ev ''status'' [];
                    s1 = record_request s0 i status now
                in case path of
                     None \<Rightarrow> Inl TypeError
                   | Some p \<Rightarrow>
                       let s2 = (if \<exists>susp \<in> set SUSPICIOUS_PATHS. str_contains susp p
                                 then alert_emit e s1 ''medium'' ''suspicious_path'' i
                                        (''path='' @ p) 6
                                 else s1);
                           s3 = (if status = Some ''403'' then check_status_storm e s2 i ''403'' now
                                 else if status = Some ''404''
                                 then check_status_storm e s2 i ''404'' now
                                 else s2)
                       in Inr (check_rate_anomaly e s3 i now))
             else if ty = Some ''syslog'' then
               (let event = ev_get ev ''event''
                in if event = Some ''failed_login'' \<and> truthy i
                   then (case i of None \<Rightarrow> Inr s0
                         | Some a \<Rightarrow> Inr (check_bruteforce e (record_failed_login s0 a now) a now))
                   else if event = Some ''accepted_login'' \<and> truthy i
                   then Inr (record_request s0 i (Some ''200'') now)
                   else Inr s0)
             else Inr s0)"

text \<open>The calls the reading loop makes, one event and one clock reading at a time.\<close>

fun ingest_all :: "env \<Rightarrow> hunter \<Rightarrow> (event \<times> real) list \<Rightarrow> py_error + hunter" where
  "ingest_all e s [] = Inr s"
| "ingest_all e s ((ev, now) # rest) =
     (case ingest_event e s ev now of Inl err \<Rightarrow> Inl err | Inr s' \<Rightarrow> ingest_all e s' rest)"

section \<open>Report\<close>

record totals =
  lines_processed :: int
  events_parsed :: int
  alerts :: int

record report =
  generated_at :: string
  window_seconds :: int
  threshold_r :: int
  totals_r :: totals
  top_ips :: "(string \<times> int) list"
  recent_alerts :: "alert list"

text \<open>
  \<^verbatim>\<open>to_report\<close> reads the clock once (\<open>g\<close>) and assigns to nothing; the state it leaves
  is returned beside the report.
\<close>

definition to_report :: "string \<Rightarrow> hunter \<Rightarrow> report \<times> hunter" where
  "to_report g s =
     (let top = take 10 (sort_key (\<lambda>kv. - snd kv) (per_ip_count (stats s)))
      in (\<lparr>generated_at = g, window_seconds = window s, threshold_r = threshold s,
           totals_r = \<lparr>lines_processed = total_lines (stats s),
                       events_parsed = total_events (stats s),
                       alerts = total_alerts (stats s)\<rparr>,
           top_ips = top, recent_alerts = last_alerts (stats s)\<rparr>, s))"

section \<open>Sample inputs\<close>

text \<open>
  A clock and float formats for the evaluations below, and events shaped as \<^verbatim>\<open>parse_nginx\<close>
  and \<^verbatim>\<open>parse_syslog\<close> build them (only the keys \<^verbatim>\<open>ingest_event\<close> reads).
\<close>

abbreviation sample_env :: env where
  "sample_env \<equiv> \<lparr>utcnow = (\<lambda>k. ''alert-'' @ str_int k), fmt2 = (\<lambda>x. ''?''),
                   fmt3 = (\<lambda>x. ''?'')\<rparr>"

abbreviation nginx_event :: "string option \<Rightarrow> string \<Rightarrow> string \<Rightarrow> event" where
  "nginx_event i p st \<equiv>
     [''type'' \<mapsto> Some ''nginx'', ''ip'' \<mapsto> i, ''path'' \<mapsto> Some p, ''status'' \<mapsto> Some st]"

abbreviation syslog_event :: "string option \<Rightarrow> string option \<Rightarrow> event" where
  "syslog_event i evt \<equiv> [''type'' \<mapsto> Some ''syslog'', ''ip'' \<mapsto> i, ''event'' \<mapsto> evt]"

section \<open>The sliding window\<close>

lemma sorted_filter_real: "sorted (xs :: real list) \<Longrightarrow> sorted (filter P xs)"
  by (induction xs) auto

lemma prune_window_sorted_filter:
  "sorted tms \<Longrightarrow> prune_window w now tms = filter (\<lambda>t. now - t \<le> of_int w) tms"
proof (induction tms)
  case Nil
  then show ?case by simp
next
  case (Cons t dq)
  show ?case
  proof (cases "now - t > of_int w")
    case True
    with Cons show ?thesis by simp
  next
    case False
    have "\<forall>u \<in> set dq. now - u \<le> of_int w"
      using Cons.prems False by auto
    then have "filter (\<lambda>t. now - t \<le> of_int w) dq = dq"
      by (simp add: filter_id_conv)
    with False show ?thesis by simp
  qed
qed

lemma prune_window_length_le: "length (prune_window w now tms) \<le> length tms"
  by (induction tms) auto

lemma prune_window_mono:
  "now \<le> now' \<Longrightarrow> length (prune_window w now' tms) \<le> length (prune_window w now tms)"
proof (induction tms)
  case Nil
  then show ?case by simp
next
  case (Cons t dq)
  then show ?case using prune_window_length_le[of w now' dq] by auto
qed

lemma failed_deque_record:
  "dd_get (failed_logins_by_ip (record_failed_login s a t)) [] a =
     prune_window (window s) t (dd_get (failed_logins_by_ip s) [] a @ [t])"
  by (simp add: record_failed_login_def dd_get_def Let_def)

lemma window_record_failed_login: "window (record_failed_login s a t) = window s"
  by (simp add: record_failed_login_def Let_def)

lemma window_record_run: "window (foldl (\<lambda>s t. record_failed_login s a t) s tms) = window s"
  by (induction tms arbitrary: s) (simp_all add: window_record_failed_login)

text \<open>
  Recording arrival times in non-decreasing order leaves in the deque exactly the recorded
  times that are at most one window older than the last one.
\<close>

lemma failed_deque_run:
  assumes "sorted tms" and "dd_get (failed_logins_by_ip s) [] a = []"
  shows "dd_get (failed_logins_by_ip (foldl (\<lambda>s t. record_failed_login s a t) s tms)) [] a =
           (if tms = [] then [] else filter (\<lambda>u. last tms - u \<le> of_int (window s)) tms)"
  using assms(1)
proof (induction tms rule: rev_induct)
  case Nil
  then show ?case using assms(2) by simp
next
  case (snoc t pre)
  let ?s = "foldl (\<lambda>s t. record_failed_login s a t) s pre"
  have srt: "sorted pre" and le: "\<forall>u \<in> set pre. u \<le> t"
    using snoc.prems by (auto simp: sorted_append)
  have w: "window ?s = window s" by (rule window_record_run)
  show ?case
  proof (cases "pre = []")
    case True
    then show ?thesis using assms(2) by (simp add: failed_deque_record)
  next
    case False
    then have lt: "last pre \<le> t" using le by simp
    have dq: "dd_get (failed_logins_by_ip ?s) [] a
                = filter (\<lambda>u. last pre - u \<le> of_int (window s)) pre"
      using snoc.IH[OF srt] False by simp
    have "sorted (filter (\<lambda>u. last pre - u \<le> of_int (window s)) pre @ [t])"
      using sorted_filter_real[OF srt] le by (auto simp: sorted_append)
    then have "prune_window (window s) t
                 (filter (\<lambda>u. last pre - u \<le> of_int (window s)) pre @ [t])
               = filter (\<lambda>u. t - u \<le> of_int (window s))
                   (filter (\<lambda>u. last pre - u \<le> of_int (window s)) pre @ [t])"
      by (rule prune_window_sorted_filter)
    also have "\<dots> = filter (\<lambda>u. t - u \<le> of_int (window s)) (pre @ [t])"
      using lt by (auto intro: filter_cong)
    finally show ?thesis
      by (simp add: failed_deque_record w dq)
  qed
qed

text \<open>
  C5 (as the code has it). The claim counts the recorded times \<open>t\<close> with
  \<open>now - t < W\<close>; the loop of \<^verbatim>\<open>_prune_window\<close> drops a time only while
  \<open>now - t > W\<close>, so a time exactly \<open>W\<close> old is still counted. For arrival times recorded
  in non-decreasing order into an empty counter and a query time \<open>now\<close> not before them,
  the count after pruning is the number of recorded times \<open>t\<close> with \<open>now - t \<le> W\<close>, and a
  later query time \<open>now'\<close> never gives a larger count.
\<close>

theorem windowed_count_after_prune:
  assumes "sorted tms" and "\<forall>t \<in> set tms. t \<le> now" and "now \<le> now'"
    and "dd_get (failed_logins_by_ip s) [] a = []"
  shows "(let dq = dd_get (failed_logins_by_ip
                     (foldl (\<lambda>s t. record_failed_login s a t) s tms)) [] a
          in length (prune_window (window s) now dq)
               = length (filter (\<lambda>t. now - t \<le> of_int (window s)) tms)
           \<and> length (prune_window (window s) now' dq)
               \<le> length (prune_window (window s) now dq))"
proof -
  let ?dq = "dd_get (failed_logins_by_ip (foldl (\<lambda>s t. record_failed_login s a t) s tms)) [] a"
  have "prune_window (window s) now ?dq = filter (\<lambda>t. now - t \<le> of_int (window s)) tms"
  proof (cases "tms = []")
    case True
    then show ?thesis using assms(4) by simp
  next
    case False
    then have dq: "?dq = filter (\<lambda>u. last tms - u \<le> of_int (window s)) tms"
      using failed_deque_run[OF assms(1) assms(4)] by simp
    have "last tms \<le> now" using assms(2) False by simp
    then have imp: "\<And>u. now - u \<le> of_int (window s) \<Longrightarrow> last tms - u \<le> of_int (window s)"
      by simp
    have "sorted (filter (\<lambda>u. last tms - u \<le> of_int (window s)) tms)"
      using assms(1) by (rule sorted_filter_real)
    then have "prune_window (window s) now ?dq
                 = filter (\<lambda>t. now - t \<le> of_int (window s))
                     (filter (\<lambda>u. last tms - u \<le> of_int (window s)) tms)"
      unfolding dq by (rule prune_window_sorted_filter)
    also have "\<dots> = filter (\<lambda>t. now - t \<le> of_int (window s)) tms"
      using imp by (auto intro: filter_cong)
    finally show ?thesis .
  qed
  then show ?thesis
    using prune_window_mono[OF assms(3), of "window s" ?dq] by (simp add: Let_def)
qed

theorem windowed_count_after_prune_witness:
  "sorted [0, 5, 12 :: real] \<and> Max (set [0, 5, 12 :: real]) \<le> 12 \<and> (12 :: real) \<le> 20
   \<and> dd_get (failed_logins_by_ip (init_hunter 10 3 (Fin (3/10)))) [] ''10.0.0.1'' = []
   \<and> length (prune_window 10 12 (dd_get (failed_logins_by_ip
        (foldl (\<lambda>s t. record_failed_login s ''10.0.0.1'' t) (init_hunter 10 3 (Fin (3/10)))
           [0, 5, 12])) [] ''10.0.0.1'')) = 2
   \<and> length (filter (\<lambda>t. 12 - t \<le> (10::real)) [0, 5, 12]) = 2"
  using windowed_count_after_prune
          [of "[0, 5, 12]" 12 20 "init_hunter 10 3 (Fin (3/10))" "''10.0.0.1''"]
  by (simp add: init_hunter_def dd_get_def Let_def)

text \<open>
  The claim as worded fails on the boundary: one time recorded at 0, window 10, query at 10.
  The deque keeps the entry (count 1) while no recorded time is less than 10 old.
\<close>

theorem strict_window_count_counterexample:
  "length (prune_window 10 10 [0]) \<noteq> length (filter (\<lambda>t. (10::real) - t < of_int 10) [0])"
  by simp

section \<open>The rate model\<close>

lemma fmax_floor: "fmax (Fin v) (Fin (1 / 1000000)) = Fin (max v (1 / 1000000))"
  by (simp add: fmax_def max_def)

lemma sqrt_floor_pos: "0 < sqrt (max v (1 / 1000000))"
  by (simp add: max_def)

lemma zscore_finite_var:
  "var m = Fin v \<Longrightarrow> zscore m x = fdiv (fsub x (mean m)) (Fin (sqrt (max v (1 / 1000000))))"
  using sqrt_floor_pos[of v] by (simp add: zscore_def Let_def fmax_floor)

lemma zscore_nan_var: "var m = NaN \<Longrightarrow> zscore m x = Fin 0"
  by (simp add: zscore_def Let_def fmax_def)

lemma update_finite:
  assumes "alpha m = Fin a" and "0 \<le> a" and "a \<le> 1"
    and "mean m = Fin mu" and "var m = Fin v" and "0 \<le> v"
  shows "\<exists>mu' v'. alpha (update m (Fin x)) = Fin a \<and> mean (update m (Fin x)) = Fin mu'
           \<and> var (update m (Fin x)) = Fin v' \<and> 0 \<le> v'"
  using assms by (simp add: update_def Let_def)

lemma updates_finite:
  assumes "0 \<le> a" and "a \<le> 1"
  shows "\<lbrakk>alpha m = Fin a; mean m = Fin mu; var m = Fin v; 0 \<le> v\<rbrakk>
         \<Longrightarrow> \<exists>mu' v'. mean (foldl update m (map Fin xs)) = Fin mu'
               \<and> var (foldl update m (map Fin xs)) = Fin v' \<and> 0 \<le> v'"
proof (induction xs arbitrary: m mu v)
  case Nil
  then show ?case by simp
next
  case (Cons y ys)
  obtain mu1 v1 where "alpha (update m (Fin y)) = Fin a" "mean (update m (Fin y)) = Fin mu1"
      "var (update m (Fin y)) = Fin v1" "0 \<le> v1"
    using update_finite[OF Cons.prems(1) assms Cons.prems(2,3,4), of y] by blast
  then show ?case
    using Cons.IH[of "update m (Fin y)" mu1 v1] by simp
qed

text \<open>
  C10 (as the code has it). \<^verbatim>\<open>zscore\<close> is total and never divides by zero. When the
  variance is a number, \<open>std = sqrt(max(variance, 1e-6))\<close> is strictly positive, the guard
  \<open>std > 0\<close> holds and the quotient is returned. When the variance is NaN, \<open>max\<close> and
  \<open>sqrt\<close> return NaN, the guard is false and the fallback 0.0 is returned: the fallback
  branch is reachable.
\<close>

theorem zscore_std_and_fallback:
  "(\<forall>v. var m = Fin v \<longrightarrow>
        fsqrt (fmax (var m) (Fin (1 / 1000000))) = Fin (sqrt (max v (1 / 1000000)))
      \<and> 0 < sqrt (max v (1 / 1000000))
      \<and> zscore m x = fdiv (fsub x (mean m)) (Fin (sqrt (max v (1 / 1000000)))))
   \<and> (var m = NaN \<longrightarrow>
        fsqrt (fmax (var m) (Fin (1 / 1000000))) = NaN \<and> zscore m x = Fin 0)"
  using sqrt_floor_pos
  by (auto simp: fmax_floor zscore_finite_var zscore_nan_var fmax_def)

theorem zscore_std_and_fallback_witness:
  "var \<lparr>alpha = Fin (3/10), mean = Fin 1, var = Fin 4, initialized = True\<rparr> = Fin 4
   \<and> zscore \<lparr>alpha = Fin (3/10), mean = Fin 1, var = Fin 4, initialized = True\<rparr> (Fin 7) = Fin 3
   \<and> zscore \<lparr>alpha = Fin (3/10), mean = Fin 1, var = NaN, initialized = True\<rparr> (Fin 7) = Fin 0"
  using zscore_std_and_fallback
          [of "\<lparr>alpha = Fin (3/10), mean = Fin 1, var = Fin 4, initialized = True\<rparr>" "Fin 7"]
        zscore_std_and_fallback
          [of "\<lparr>alpha = Fin (3/10), mean = Fin 1, var = NaN, initialized = True\<rparr>" "Fin 7"]
  by (simp add: max_def)

text \<open>
  The claim as worded fails for a NaN variance. An engine started with \<^verbatim>\<open>--ewma-alpha nan\<close>
  has a NaN variance after the second observation of an entity; there \<open>std\<close> is NaN, the
  guard \<open>std > 0\<close> is false and \<^verbatim>\<open>zscore\<close> returns the fallback 0.0.
\<close>

theorem zscore_nan_counterexample:
  "var (foldl update (new_ewma NaN) [Fin 1, Fin 2]) = NaN
   \<and> \<not> fgt (fsqrt (fmax (var (foldl update (new_ewma NaN) [Fin 1, Fin 2]))
                         (Fin (1 / 1000000)))) (Fin 0)
   \<and> zscore (foldl update (new_ewma NaN) [Fin 1, Fin 2]) (Fin 2) = Fin 0"
  by (simp add: update_def new_ewma_def zscore_def fmax_def Let_def)

text \<open>
  C4 (as the code has it). \<^verbatim>\<open>update\<close> stores the variance without a floor; the floor
  \<open>1e-6\<close> is applied by \<^verbatim>\<open>zscore\<close> when it reads the variance. With \<open>alpha\<close> in \<open>[0, 1]\<close>
  and a non-negative starting variance, the stored variance is non-negative after every
  sequence of updates, and the variance \<^verbatim>\<open>zscore\<close> divides by is at least \<open>1e-6\<close>.
\<close>

theorem variance_after_updates:
  assumes "alpha m = Fin a" and "0 \<le> a" and "a \<le> 1"
    and "mean m = Fin mu" and "var m = Fin v" and "0 \<le> v"
  shows "\<exists>mu' v'. mean (foldl update m (map Fin xs)) = Fin mu'
           \<and> var (foldl update m (map Fin xs)) = Fin v' \<and> 0 \<le> v'
           \<and> 1 / 1000000 \<le> max v' (1 / 1000000)
           \<and> zscore (foldl update m (map Fin xs)) (Fin x)
               = Fin ((x - mu') / sqrt (max v' (1 / 1000000)))"
proof -
  obtain mu' v' where fin: "mean (foldl update m (map Fin xs)) = Fin mu'"
      "var (foldl update m (map Fin xs)) = Fin v'" "0 \<le> v'"
    using updates_finite[OF assms(2,3,1,4,5,6), of xs] by blast
  have "zscore (foldl update m (map Fin xs)) (Fin x)
          = Fin ((x - mu') / sqrt (max v' (1 / 1000000)))"
    using zscore_finite_var[OF fin(2), of "Fin x"] fin(1) by simp
  with fin show ?thesis by auto
qed

theorem variance_after_updates_witness:
  "alpha (new_ewma (Fin (3/10))) = Fin (3/10) \<and> (0::real) \<le> 3/10 \<and> (3/10::real) \<le> 1
   \<and> mean (new_ewma (Fin (3/10))) = Fin 0 \<and> var (new_ewma (Fin (3/10))) = Fin 1
   \<and> mean (foldl update (new_ewma (Fin (3/10))) (map Fin [2, 2, 4])) = Fin (13/5)
   \<and> var (foldl update (new_ewma (Fin (3/10))) (map Fin [2, 2, 4])) = Fin (169/100)"
  using variance_after_updates[of "new_ewma (Fin (3/10))" "3/10" 0 1 "[2, 2, 4]" 4]
  by (simp add: new_ewma_def update_def Let_def power2_eq_square)

text \<open>
  The stored variance does fall below the floor: with \<open>alpha = 1/2\<close> and the rate 0
  observed 21 times, it is \<open>2\<^sup>-\<^sup>2\<^sup>0\<close>, less than \<open>1e-6\<close>.
\<close>

theorem variance_floor_counterexample:
  "var (foldl update (new_ewma (Fin (1/2))) (replicate 21 (Fin 0))) = Fin (1 / 1048576)
   \<and> \<not> (1 / 1000000 \<le> (1 / 1048576 :: real))"
  by (simp add: update_def new_ewma_def numeral_eq_Suc Let_def)

section \<open>Rounding of scores\<close>

lemma py_round2_of_int [simp]: "py_round2 (of_int k) = of_int k"
  by (simp add: py_round2_def Let_def)

lemma py_round2_Ints: "x \<in> \<int> \<Longrightarrow> py_round2 x = x"
  by (auto elim: Ints_cases)

lemma py_round2_6: "py_round2 6 = 6"
  using py_round2_of_int[of 6] by simp

lemma py_round2_9: "py_round2 9 = 9"
  using py_round2_of_int[of 9] by simp

lemma py_round2_10: "py_round2 10 = 10"
  using py_round2_of_int[of 10] by simp

section \<open>The steps of the ingestion\<close>

lemma prune_window_idem: "prune_window w now (prune_window w now tms) = prune_window w now tms"
  by (induction tms) auto

lemma prune_window_keep:
  "tms \<noteq> [] \<Longrightarrow> now - hd tms \<le> of_int w \<Longrightarrow> prune_window w now tms = tms"
  by (cases tms) auto

lemma alert_emit_frame:
  "window (alert_emit e s sev k i d sc) = window s"
  "threshold (alert_emit e s sev k i d sc) = threshold s"
  "ewma_alpha (alert_emit e s sev k i d sc) = ewma_alpha s"
  "events_by_ip (alert_emit e s sev k i d sc) = events_by_ip s"
  "failed_logins_by_ip (alert_emit e s sev k i d sc) = failed_logins_by_ip s"
  "status_by_ip (alert_emit e s sev k i d sc) = status_by_ip s"
  "rate_model (alert_emit e s sev k i d sc) = rate_model s"
  by (simp_all add: alert_emit_def Let_def)

lemma alert_emit_stats:
  "total_alerts (stats (alert_emit e s sev k i d sc)) = total_alerts (stats s) + 1"
  "last_alerts (stats (alert_emit e s sev k i d sc)) =
     ring_append (last_alerts (stats s))
       \<lparr>ts = utcnow e (total_alerts (stats s)), severity = sev, kind = k, ip = i,
        detail = d, score = py_round2 sc\<rparr>"
  by (simp_all add: alert_emit_def Let_def)

lemma record_request_frame:
  "window (record_request s i st now) = window s"
  "threshold (record_request s i st now) = threshold s"
  "ewma_alpha (record_request s i st now) = ewma_alpha s"
  "failed_logins_by_ip (record_request s i st now) = failed_logins_by_ip s"
  "rate_model (record_request s i st now) = rate_model s"
  "total_alerts (stats (record_request s i st now)) = total_alerts (stats s)"
  "last_alerts (stats (record_request s i st now)) = last_alerts (stats s)"
  by (simp_all add: record_request_def Let_def split: option.split)

lemma record_request_counts:
  assumes "a \<noteq> []"
  shows "dd_get (events_by_ip (record_request s (Some a) st now)) [] a
           = prune_window (window s) now (dd_get (events_by_ip s) [] a @ [now])"
    and "dd_get (dd_get (status_by_ip (record_request s (Some a) st now)) Map.empty a) [] st
           = prune_window (window s) now (dd_get (dd_get (status_by_ip s) Map.empty a) [] st @ [now])"
  using assms by (simp_all add: record_request_def Let_def dd_get_def)

lemma check_status_storm_frame:
  "window (check_status_storm e s i st now) = window s"
  "threshold (check_status_storm e s i st now) = threshold s"
  "ewma_alpha (check_status_storm e s i st now) = ewma_alpha s"
  "events_by_ip (check_status_storm e s i st now) = events_by_ip s"
  "rate_model (check_status_storm e s i st now) = rate_model s"
  by (simp_all add: check_status_storm_def alert_emit_frame Let_def split: option.split)

lemma check_status_storm_stats:
  assumes "a \<noteq> []"
    and "n = int (length (prune_window (window s) now
                   (dd_get (dd_get (status_by_ip s) Map.empty a) [] (Some st))))"
  shows "total_alerts (stats (check_status_storm e s (Some a) st now))
           = total_alerts (stats s) + (if threshold s \<le> n then 1 else 0)"
    and "last_alerts (stats (check_status_storm e s (Some a) st now))
           = (if threshold s \<le> n
              then ring_append (last_alerts (stats s))
                     \<lparr>ts = utcnow e (total_alerts (stats s)),
                      severity = (if st = ''404'' then ''medium'' else ''high''),
                      kind = st @ ''_storm'', ip = Some a,
                      detail = str_int n @ '' '' @ st @ ''s in '' @ str_int (window s) @ ''s'',
                      score = 7 + of_int (n - threshold s)\<rparr>
              else last_alerts (stats s))"
  using assms
  by (simp_all add: check_status_storm_def alert_emit_stats alert_emit_frame py_round2_Ints Let_def)

lemma py_round2_rate: "3 < zr \<Longrightarrow> py_round2 (min 10 (75 / 10 + zr)) = 10"
  by (simp add: min_def py_round2_10)

lemma check_rate_anomaly_frame:
  "window (check_rate_anomaly e s i now) = window s"
  "threshold (check_rate_anomaly e s i now) = threshold s"
  "ewma_alpha (check_rate_anomaly e s i now) = ewma_alpha s"
  "failed_logins_by_ip (check_rate_anomaly e s i now) = failed_logins_by_ip s"
  "status_by_ip (check_rate_anomaly e s i now) = status_by_ip s"
  by (simp_all add: check_rate_anomaly_def alert_emit_frame Let_def
        split: option.split pyfloat.split)

lemma check_rate_anomaly_stats:
  assumes "a \<noteq> []"
    and "n = int (length (prune_window (window s) now (dd_get (events_by_ip s) [] a)))"
    and "rate = real_of_int n / of_int (max (window s) 1)"
    and "z = zscore (update (dd_get (rate_model s) (new_ewma (ewma_alpha s)) a) (Fin rate))
               (Fin rate)"
    and "anomaly = (case z of NaN \<Rightarrow> []
                    | Fin zr \<Rightarrow>
                        if 3 < zr \<and> threshold s < n
                        then [\<lparr>ts = utcnow e (total_alerts (stats s)), severity = ''high'',
                               kind = ''rate_anomaly'', ip = Some a,
                               detail = ''z='' @ fmt2 e zr @ '', rate='' @ fmt3 e rate @ '' req/s'',
                               score = min 10 (75 / 10 + zr)\<rparr>]
                        else [])"
  shows "total_alerts (stats (check_rate_anomaly e s (Some a) now))
           = total_alerts (stats s) + int (length anomaly)"
    and "last_alerts (stats (check_rate_anomaly e s (Some a) now))
           = foldl ring_append (last_alerts (stats s)) anomaly"
    and "rate_model (check_rate_anomaly e s (Some a) now) a
           = Some (update (dd_get (rate_model s) (new_ewma (ewma_alpha s)) a) (Fin rate))"
    and "dd_get (events_by_ip (check_rate_anomaly e s (Some a) now)) [] a
           = prune_window (window s) now (dd_get (events_by_ip s) [] a)"
proof -
  let ?M = "update (dd_get (rate_model s) (new_ewma (ewma_alpha s)) a) (Fin rate)"
  have r: "real (length (prune_window (window s) now (dd_get (events_by_ip s) [] a)))
             / real_of_int (max (window s) 1) = rate"
    by (simp add: assms(2,3))
  show "rate_model (check_rate_anomaly e s (Some a) now) a = Some ?M"
    using assms(1) r
    by (simp add: check_rate_anomaly_def alert_emit_frame Let_def split: pyfloat.split)
  show "dd_get (events_by_ip (check_rate_anomaly e s (Some a) now)) [] a
           = prune_window (window s) now (dd_get (events_by_ip s) [] a)"
    using assms(1)
    by (simp add: check_rate_anomaly_def alert_emit_frame Let_def dd_get_def split: pyfloat.split)
  show "total_alerts (stats (check_rate_anomaly e s (Some a) now))
           = total_alerts (stats s) + int (length anomaly)"
  proof (cases z)
    case NaN
    then show ?thesis
      using assms(1,2,4,5) r by (simp add: check_rate_anomaly_def Let_def)
  next
    case (Fin zr)
    then show ?thesis
      using assms(1,2,4,5) r
      by (simp add: check_rate_anomaly_def alert_emit_stats alert_emit_frame Let_def)
  qed
  show "last_alerts (stats (check_rate_anomaly e s (Some a) now))
           = foldl ring_append (last_alerts (stats s)) anomaly"
  proof (cases z)
    case NaN
    then show ?thesis
      using assms(1,2,4,5) r by (simp add: check_rate_anomaly_def Let_def)
  next
    case (Fin zr)
    then show ?thesis
      using assms(1,2,4,5) r
      by (simp add: check_rate_anomaly_def alert_emit_stats alert_emit_frame py_round2_10 Let_def)
  qed
qed

lemma ring_appends:
  "length xs \<le> 100 \<Longrightarrow>
   foldl ring_append xs ys = drop (length xs + length ys - 100) (xs @ ys)"
proof (induction ys arbitrary: xs)
  case Nil
  then show ?case by simp
next
  case (Cons y ys)
  show ?case
  proof (cases "100 \<le> length xs")
    case True
    then have len: "length xs = 100" using Cons.prems by simp
    then have ne: "xs \<noteq> []" by auto
    have "foldl ring_append (tl xs @ [y]) ys
            = drop (length (tl xs @ [y]) + length ys - 100) ((tl xs @ [y]) @ ys)"
      by (rule Cons.IH) (simp add: len)
    also have "\<dots> = drop (length ys) (tl (xs @ y # ys))"
      using ne by (simp add: len)
    also have "\<dots> = drop (Suc (length ys)) (xs @ y # ys)"
      by (simp only: drop_Suc)
    also have "\<dots> = drop (length xs + length (y # ys) - 100) (xs @ y # ys)"
      by (simp add: len)
    finally have step: "foldl ring_append (tl xs @ [y]) ys
                          = drop (length xs + length (y # ys) - 100) (xs @ y # ys)" .
    have "ring_append xs y = tl xs @ [y]"
      using True by (simp add: ring_append_def)
    then show ?thesis using step by simp
  next
    case False
    have "foldl ring_append (xs @ [y]) ys
            = drop (length (xs @ [y]) + length ys - 100) ((xs @ [y]) @ ys)"
      by (rule Cons.IH) (use False in simp)
    moreover have "ring_append xs y = xs @ [y]"
      using False by (simp add: ring_append_def)
    ultimately show ?thesis by simp
  qed
qed

text \<open>An nginx event with an entity, up to the storm check.\<close>

lemma ingest_nginx_until_storm:
  assumes "ev ''type'' = Some (Some ''nginx'')"
    and "ev_get ev ''ip'' = Some a" and "a \<noteq> []"
    and "ev_get_default ev ''path'' [] = Some p"
    and "ev_get_default ev ''status'' [] = sto"
  shows "\<exists>s2 pre.
           ingest_event e s ev now =
             Inr (check_rate_anomaly e
                    (if sto = Some ''403'' then check_status_storm e s2 (Some a) ''403'' now
                     else if sto = Some ''404'' then check_status_storm e s2 (Some a) ''404'' now
                     else s2) (Some a) now)
         \<and> window s2 = window s \<and> threshold s2 = threshold s \<and> ewma_alpha s2 = ewma_alpha s
         \<and> rate_model s2 = rate_model s
         \<and> dd_get (events_by_ip s2) [] a
              = prune_window (window s) now (dd_get (events_by_ip s) [] a @ [now])
         \<and> dd_get (dd_get (status_by_ip s2) Map.empty a) [] sto
              = prune_window (window s) now
                  (dd_get (dd_get (status_by_ip s) Map.empty a) [] sto @ [now])
         \<and> (\<forall>x \<in> set pre. kind x = ''suspicious_path'') \<and> length pre \<le> 1
         \<and> last_alerts (stats s2) = foldl ring_append (last_alerts (stats s)) pre
         \<and> total_alerts (stats s2) = total_alerts (stats s) + int (length pre)"
proof -
  define s0 where "s0 = s\<lparr>stats := (stats s)\<lparr>total_events := total_events (stats s) + 1\<rparr>\<rparr>"
  define s1 where "s1 = record_request s0 (Some a) sto now"
  define susp where "susp \<longleftrightarrow> (\<exists>susp \<in> set SUSPICIOUS_PATHS. str_contains susp p)"
  define s2 where "s2 = (if susp then alert_emit e s1 ''medium'' ''suspicious_path'' (Some a)
                                        (''path='' @ p) 6 else s1)"
  define pre where "pre = (if susp then [\<lparr>ts = utcnow e (total_alerts (stats s)),
                      severity = ''medium'', kind = ''suspicious_path'', ip = Some a,
                      detail = ''path='' @ p, score = 6\<rparr>] else [])"
  have s0: "window s0 = window s" "threshold s0 = threshold s" "ewma_alpha s0 = ewma_alpha s"
      "rate_model s0 = rate_model s" "events_by_ip s0 = events_by_ip s"
      "status_by_ip s0 = status_by_ip s" "total_alerts (stats s0) = total_alerts (stats s)"
      "last_alerts (stats s0) = last_alerts (stats s)"
    by (simp_all add: s0_def)
  have s1: "window s1 = window s" "threshold s1 = threshold s" "ewma_alpha s1 = ewma_alpha s"
      "rate_model s1 = rate_model s" "total_alerts (stats s1) = total_alerts (stats s)"
      "last_alerts (stats s1) = last_alerts (stats s)"
    by (simp_all add: s1_def record_request_frame s0)
  have s1c: "dd_get (events_by_ip s1) [] a
               = prune_window (window s) now (dd_get (events_by_ip s) [] a @ [now])"
      "dd_get (dd_get (status_by_ip s1) Map.empty a) [] sto
               = prune_window (window s) now
                   (dd_get (dd_get (status_by_ip s) Map.empty a) [] sto @ [now])"
    using record_request_counts[OF assms(3), of s0 sto now] by (simp_all add: s1_def s0)
  have run: "ingest_event e s ev now =
             Inr (check_rate_anomaly e
                    (if sto = Some ''403'' then check_status_storm e s2 (Some a) ''403'' now
                     else if sto = Some ''404'' then check_status_storm e s2 (Some a) ''404'' now
                     else s2) (Some a) now)"
    using assms(1,2,4,5)
    by (simp add: ingest_event_def Let_def s2_def s1_def s0_def susp_def)
  have s2: "window s2 = window s" "threshold s2 = threshold s" "ewma_alpha s2 = ewma_alpha s"
      "rate_model s2 = rate_model s" "events_by_ip s2 = events_by_ip s1"
      "status_by_ip s2 = status_by_ip s1"
    by (simp_all add: s2_def alert_emit_frame s1)
  have s2a: "last_alerts (stats s2) = foldl ring_append (last_alerts (stats s)) pre"
      "total_alerts (stats s2) = total_alerts (stats s) + int (length pre)"
    by (simp_all add: s2_def pre_def alert_emit_stats s1 py_round2_6)
  have kinds: "\<forall>x \<in> set pre. kind x = ''suspicious_path''" "length pre \<le> 1"
    by (simp_all add: pre_def)
  show ?thesis
    using run s2(1-4) s1c s2a kinds unfolding s2(5,6)[symmetric] by blast
qed

lemma storm_step_alerts:
  assumes "a \<noteq> []"
    and "s3 = (if sto = Some ''403'' then check_status_storm e s2 (Some a) ''403'' now
               else if sto = Some ''404'' then check_status_storm e s2 (Some a) ''404'' now
               else s2)"
  shows "\<exists>storm. (\<forall>x \<in> set storm. kind x = ''403_storm'' \<or> kind x = ''404_storm'')
           \<and> length storm \<le> 1
           \<and> last_alerts (stats s3) = foldl ring_append (last_alerts (stats s2)) storm
           \<and> total_alerts (stats s3) = total_alerts (stats s2) + int (length storm)"
proof -
  have one: "\<exists>storm. (\<forall>x \<in> set storm. kind x = st @ ''_storm'')
           \<and> length storm \<le> 1
           \<and> last_alerts (stats (check_status_storm e s2 (Some a) st now))
                = foldl ring_append (last_alerts (stats s2)) storm
           \<and> total_alerts (stats (check_status_storm e s2 (Some a) st now))
                = total_alerts (stats s2) + int (length storm)" for st
  proof -
    define n where "n = int (length (prune_window (window s2) now
                   (dd_get (dd_get (status_by_ip s2) Map.empty a) [] (Some st))))"
    show ?thesis
    proof (cases "threshold s2 \<le> n")
      case True
      then show ?thesis
        using check_status_storm_stats[OF assms(1) n_def, of e]
        by (intro exI[of _ "[\<lparr>ts = utcnow e (total_alerts (stats s2)),
                      severity = (if st = ''404'' then ''medium'' else ''high''),
                      kind = st @ ''_storm'', ip = Some a,
                      detail = str_int n @ '' '' @ st @ ''s in '' @ str_int (window s2) @ ''s'',
                      score = 7 + of_int (n - threshold s2)\<rparr>]"]) simp
    next
      case False
      then show ?thesis
        using check_status_storm_stats[OF assms(1) n_def, of e]
        by (intro exI[of _ "[]"]) simp
    qed
  qed
  consider "sto = Some ''403''" | "sto \<noteq> Some ''403''" "sto = Some ''404''"
    | "sto \<noteq> Some ''403''" "sto \<noteq> Some ''404''" by blast
  then show ?thesis
  proof cases
    case 1
    then show ?thesis using one[of "''403''"] assms(2) by auto
  next
    case 2
    then show ?thesis using one[of "''404''"] assms(2) by auto
  next
    case 3
    then show ?thesis using assms(2) by (intro exI[of _ "[]"]) simp
  qed
qed

lemma failed_login_step:
  assumes "ev ''type'' = Some (Some ''syslog'')" and "ev_get ev ''event'' = Some ''failed_login''"
    and "ev_get ev ''ip'' = Some a" and "a \<noteq> []"
    and "dd_get (failed_logins_by_ip s) [] a = pre"
    and "now - hd (pre @ [now]) \<le> of_int (window s)"
  shows "\<exists>s'. ingest_event e s ev now = Inr s'
           \<and> dd_get (failed_logins_by_ip s') [] a = pre @ [now]
           \<and> window s' = window s \<and> threshold s' = threshold s
           \<and> (if threshold s \<le> int (length pre) + 1
              then total_alerts (stats s') = total_alerts (stats s) + 1
                 \<and> last_alerts (stats s') = ring_append (last_alerts (stats s))
                      \<lparr>ts = utcnow e (total_alerts (stats s)), severity = ''critical'',
                       kind = ''bruteforce'', ip = Some a,
                       detail = str_int (int (length pre) + 1) @ '' failed logins in ''
                                  @ str_int (window s) @ ''s'',
                       score = py_round2 (9 + (1 / 2) * of_int (int (length pre) + 1 - threshold s))\<rparr>
              else total_alerts (stats s') = total_alerts (stats s)
                 \<and> last_alerts (stats s') = last_alerts (stats s))"
proof -
  have keep: "prune_window (window s) now (pre @ [now]) = pre @ [now]"
    using assms(6) by (intro prune_window_keep) simp_all
  show ?thesis
    using assms(1-5) keep
    by (simp add: ingest_event_def record_failed_login_def check_bruteforce_def alert_emit_def
          dd_get_def Let_def add.commute)
qed


lemma ingest_all_append:
  "ingest_all e s (xs @ ys) =
     (case ingest_all e s xs of Inl err \<Rightarrow> Inl err | Inr s' \<Rightarrow> ingest_all e s' ys)"
  by (induction xs arbitrary: s) (auto split: sum.splits)

lemma failed_login_run_below:
  assumes "a \<noteq> []"
  shows "\<lbrakk>\<forall>ev \<in> set (map fst evs). ev ''type'' = Some (Some ''syslog'')
              \<and> ev_get ev ''event'' = Some ''failed_login'' \<and> ev_get ev ''ip'' = Some a;
          dd_get (failed_logins_by_ip s) [] a = pre;
          int (length pre) + int (length evs) < threshold s;
          \<forall>t \<in> set (map snd evs). t - hd (pre @ map snd evs) \<le> of_int (window s)\<rbrakk>
         \<Longrightarrow> \<exists>s'. ingest_all e s evs = Inr s'
               \<and> dd_get (failed_logins_by_ip s') [] a = pre @ map snd evs
               \<and> window s' = window s \<and> threshold s' = threshold s
               \<and> total_alerts (stats s') = total_alerts (stats s)
               \<and> last_alerts (stats s') = last_alerts (stats s)"
proof (induction evs arbitrary: s pre)
  case Nil
  then show ?case by simp
next
  case (Cons x rest)
  obtain ev t where x: "x = (ev, t)" by (cases x)
  have hd_eq: "hd (pre @ [t]) = hd (pre @ map snd (x # rest))"
    using x by (cases pre) simp_all
  have "t - hd (pre @ [t]) \<le> of_int (window s)"
    using Cons.prems(4) x unfolding hd_eq by simp
  with Cons.prems(1,2) x assms
  obtain s1 where s1: "ingest_event e s ev t = Inr s1"
      "dd_get (failed_logins_by_ip s1) [] a = pre @ [t]"
      "window s1 = window s" "threshold s1 = threshold s"
      "(if threshold s \<le> int (length pre) + 1
        then total_alerts (stats s1) = total_alerts (stats s) + 1
           \<and> last_alerts (stats s1) = ring_append (last_alerts (stats s))
                \<lparr>ts = utcnow e (total_alerts (stats s)), severity = ''critical'',
                 kind = ''bruteforce'', ip = Some a,
                 detail = str_int (int (length pre) + 1) @ '' failed logins in ''
                            @ str_int (window s) @ ''s'',
                 score = py_round2 (9 + (1 / 2) * of_int (int (length pre) + 1 - threshold s))\<rparr>
        else total_alerts (stats s1) = total_alerts (stats s)
           \<and> last_alerts (stats s1) = last_alerts (stats s))"
    using failed_login_step[of ev a s pre t e] by auto
  have below: "\<not> threshold s \<le> int (length pre) + 1"
    using Cons.prems(3) by simp
  have quiet: "total_alerts (stats s1) = total_alerts (stats s)"
      "last_alerts (stats s1) = last_alerts (stats s)"
    using s1(5) below by simp_all
  have "\<exists>s'. ingest_all e s1 rest = Inr s'
          \<and> dd_get (failed_logins_by_ip s') [] a = (pre @ [t]) @ map snd rest
          \<and> window s' = window s1 \<and> threshold s' = threshold s1
          \<and> total_alerts (stats s') = total_alerts (stats s1)
          \<and> last_alerts (stats s') = last_alerts (stats s1)"
  proof (rule Cons.IH)
    show "\<forall>ev \<in> set (map fst rest). ev ''type'' = Some (Some ''syslog'')
            \<and> ev_get ev ''event'' = Some ''failed_login'' \<and> ev_get ev ''ip'' = Some a"
      using Cons.prems(1) by simp
    show "dd_get (failed_logins_by_ip s1) [] a = pre @ [t]" by (rule s1(2))
    show "int (length (pre @ [t])) + int (length rest) < threshold s1"
      using Cons.prems(3) s1(4) by simp
    show "\<forall>t' \<in> set (map snd rest). t' - hd ((pre @ [t]) @ map snd rest) \<le> of_int (window s1)"
      using Cons.prems(4) x s1(3) by simp
  qed
  then show ?case
    using s1(1,3,4) quiet x by auto
qed

section \<open>Events without an entity\<close>

text \<open>
  C1 (as the code has it). For an event whose \<^verbatim>\<open>ip\<close> is \<^verbatim>\<open>None\<close>, \<^verbatim>\<open>ingest_event\<close>
  returns, adds one to \<^verbatim>\<open>total_events\<close> and leaves every per-entity counter, the per-entity
  totals and the rate models as they were. It raises no alert, except that an nginx event
  whose path contains a suspicious substring raises exactly one \<^verbatim>\<open>suspicious_path\<close> alert
  (medium, score 6.0) that carries no entity: that rule is the one not guarded by the entity.
\<close>

theorem no_entity_ingest:
  assumes "ev_get ev ''ip'' = None" and "ev ''type'' = Some ty"
    and "ev_get_default ev ''path'' [] = Some p"
  shows "\<exists>s'. ingest_event e s ev now = Inr s'
           \<and> events_by_ip s' = events_by_ip s \<and> failed_logins_by_ip s' = failed_logins_by_ip s
           \<and> status_by_ip s' = status_by_ip s \<and> rate_model s' = rate_model s
           \<and> per_ip_count (stats s') = per_ip_count (stats s)
           \<and> total_events (stats s') = total_events (stats s) + 1
           \<and> (if ty = Some ''nginx'' \<and> (\<exists>susp \<in> set SUSPICIOUS_PATHS. str_contains susp p)
              then total_alerts (stats s') = total_alerts (stats s) + 1
                 \<and> last_alerts (stats s') = ring_append (last_alerts (stats s))
                      \<lparr>ts = utcnow e (total_alerts (stats s)), severity = ''medium'',
                       kind = ''suspicious_path'', ip = None, detail = ''path='' @ p, score = 6\<rparr>
              else total_alerts (stats s') = total_alerts (stats s)
                 \<and> last_alerts (stats s') = last_alerts (stats s))"
  using assms
  by (simp add: ingest_event_def record_request_def check_status_storm_def
        check_rate_anomaly_def alert_emit_def py_round2_6 Let_def)

theorem no_entity_ingest_witness:
  "ev_get (syslog_event None None) ''ip'' = None
   \<and> syslog_event None None ''type'' = Some (Some ''syslog'')
   \<and> ev_get_default (syslog_event None None) ''path'' [] = Some []
   \<and> ingest_event sample_env (init_hunter 300 5 (Fin (3/10))) (syslog_event None None) 0
       = Inr ((init_hunter 300 5 (Fin (3/10)))\<lparr>stats := init_stats\<lparr>total_events := 1\<rparr>\<rparr>)"
  using no_entity_ingest[of "syslog_event None None" "Some ''syslog''" "[]" sample_env
          "init_hunter 300 5 (Fin (3/10))" 0]
  by (simp add: ingest_event_def ev_get_def ev_get_default_def init_hunter_def init_stats_def
        Let_def)

text \<open>
  The claim as worded fails: an nginx event with no \<^verbatim>\<open>ip\<close> and the path \<^verbatim>\<open>/admin\<close>
  raises a \<^verbatim>\<open>suspicious_path\<close> alert whose \<^verbatim>\<open>ip\<close> is \<^verbatim>\<open>None\<close>.
\<close>

theorem no_entity_suspicious_path_counterexample:
  "ingest_event sample_env (init_hunter 300 5 (Fin (3/10)))
     (nginx_event None ''/admin'' ''200'') 0
   = Inr ((init_hunter 300 5 (Fin (3/10)))\<lparr>stats := init_stats\<lparr>total_events := 1, total_alerts := 1,
        last_alerts := [\<lparr>ts = ''alert-0'', severity = ''medium'', kind = ''suspicious_path'',
                         ip = None, detail = ''path=/admin'', score = 6\<rparr>]\<rparr>\<rparr>)"
  by (simp add: ingest_event_def ev_get_def ev_get_default_def record_request_def
        check_status_storm_def check_rate_anomaly_def alert_emit_def init_hunter_def init_stats_def
        ring_append_def SUSPICIOUS_PATHS_def py_round2_6 Let_def str_int_def str_nat.simps digit_char_def)

section \<open>The report\<close>

text \<open>
  C2 (as the code has it). \<^verbatim>\<open>to_report\<close> changes no engine state, and two consecutive calls
  return reports that agree in every field except \<^verbatim>\<open>generated_at\<close>, which is the clock
  reading of each call; they are identical when the clock reads the same.
\<close>

theorem to_report_repeat:
  "snd (to_report g s) = s
   \<and> fst (to_report g' (snd (to_report g s))) = (fst (to_report g s))\<lparr>generated_at := g'\<rparr>"
  by (simp add: to_report_def Let_def)

text \<open>
  Two consecutive calls one microsecond apart return different reports.
\<close>

theorem to_report_clock_counterexample:
  "fst (to_report ''2025-09-21T10:12:00.000002'' (snd (to_report ''2025-09-21T10:12:00.000001'' (init_hunter 300 5 (Fin (3/10))))))
   \<noteq> fst (to_report ''2025-09-21T10:12:00.000001'' (init_hunter 300 5 (Fin (3/10))))"
  by (simp add: to_report_def Let_def)

section \<open>Event totals\<close>

lemma total_events_steps:
  "total_events (stats (alert_emit e s sev k i d sc)) = total_events (stats s)"
  "total_events (stats (record_request s i sto now)) = total_events (stats s)"
  "total_events (stats (check_status_storm e s i st now)) = total_events (stats s)"
  "total_events (stats (check_rate_anomaly e s i now)) = total_events (stats s)"
  "total_events (stats (record_failed_login s a now)) = total_events (stats s)"
  "total_events (stats (check_bruteforce e s a now)) = total_events (stats s)"
  by (simp_all add: alert_emit_def record_request_def check_status_storm_def
        check_rate_anomaly_def record_failed_login_def check_bruteforce_def Let_def
        split: option.split pyfloat.split)

lemma ingest_event_total_events:
  "ingest_event e s ev now = Inr s' \<Longrightarrow> total_events (stats s') = total_events (stats s) + 1"
  by (auto simp: ingest_event_def Let_def total_events_steps split: option.splits if_splits)

text \<open>
  C3. \<^verbatim>\<open>total_events\<close> grows by one with every event, but the per-entity total is
  incremented by \<^verbatim>\<open>_record_request\<close> only: a failed login that carries an entity goes
  through \<^verbatim>\<open>_record_failed_login\<close>, which leaves \<^verbatim>\<open>per_ip_count\<close> alone. After one failed
  login from \<^verbatim>\<open>1.2.3.4\<close> on a fresh engine, \<^verbatim>\<open>total_events\<close> is 1 and \<^verbatim>\<open>per_ip_count\<close>
  is still empty.
\<close>

theorem failed_login_not_counted:
  "ingest_event sample_env (init_hunter 300 5 (Fin (3/10)))
     (syslog_event (Some ''1.2.3.4'') (Some ''failed_login'')) 0
   = Inr ((init_hunter 300 5 (Fin (3/10)))\<lparr>stats := init_stats\<lparr>total_events := 1\<rparr>,
          failed_logins_by_ip := [''1.2.3.4'' \<mapsto> [0]]\<rparr>)"
  by (simp add: ingest_event_def ev_get_def record_failed_login_def check_bruteforce_def
        init_hunter_def init_stats_def dd_get_def Let_def)

section \<open>Accepted logins\<close>

text \<open>
  C9 (as the code has it). An accepted login that carries an entity is recorded through
  \<^verbatim>\<open>_record_request\<close> with the status \<^verbatim>\<open>200\<close>: it enters the entity's all-requests counter,
  adds one to its per-entity total, and also enters its per-status counter for \<^verbatim>\<open>200\<close>.
  No alert is raised, and the failed-login counters and the rate models are unchanged.
\<close>

theorem accepted_login_ingest:
  assumes "ev ''type'' = Some (Some ''syslog'')"
    and "ev_get ev ''event'' = Some ''accepted_login''"
    and "ev_get ev ''ip'' = Some a" and "a \<noteq> []"
  shows "\<exists>s'. ingest_event e s ev now = Inr s'
           \<and> events_by_ip s' = (events_by_ip s)
                 (a \<mapsto> prune_window (window s) now (dd_get (events_by_ip s) [] a @ [now]))
           \<and> per_ip_count (stats s') = count_bump (per_ip_count (stats s)) a
           \<and> status_by_ip s' = (status_by_ip s)
                 (a \<mapsto> (dd_get (status_by_ip s) Map.empty a)
                    (Some ''200'' \<mapsto> prune_window (window s) now
                       (dd_get (dd_get (status_by_ip s) Map.empty a) [] (Some ''200'') @ [now])))
           \<and> failed_logins_by_ip s' = failed_logins_by_ip s \<and> rate_model s' = rate_model s
           \<and> total_alerts (stats s') = total_alerts (stats s)
           \<and> last_alerts (stats s') = last_alerts (stats s)
           \<and> total_events (stats s') = total_events (stats s) + 1"
  using assms
  by (simp add: ingest_event_def record_request_def Let_def)

theorem accepted_login_ingest_witness:
  "syslog_event (Some ''1.2.3.4'') (Some ''accepted_login'') ''type'' = Some (Some ''syslog'')
   \<and> ev_get (syslog_event (Some ''1.2.3.4'') (Some ''accepted_login'')) ''event''
       = Some ''accepted_login''
   \<and> ev_get (syslog_event (Some ''1.2.3.4'') (Some ''accepted_login'')) ''ip'' = Some ''1.2.3.4''
   \<and> ''1.2.3.4'' \<noteq> []
   \<and> (\<exists>s'. ingest_event sample_env (init_hunter 300 5 (Fin (3/10)))
               (syslog_event (Some ''1.2.3.4'') (Some ''accepted_login'')) 0 = Inr s'
          \<and> events_by_ip s' = [''1.2.3.4'' \<mapsto> [0]]
          \<and> per_ip_count (stats s') = [(''1.2.3.4'', 1)]
          \<and> status_by_ip s' = [''1.2.3.4'' \<mapsto> [Some ''200'' \<mapsto> [0]]]
          \<and> failed_logins_by_ip s' = Map.empty \<and> rate_model s' = Map.empty
          \<and> total_alerts (stats s') = 0 \<and> last_alerts (stats s') = []
          \<and> total_events (stats s') = 1)"
  using accepted_login_ingest[of "syslog_event (Some ''1.2.3.4'') (Some ''accepted_login'')"
          "''1.2.3.4''" sample_env "init_hunter 300 5 (Fin (3/10))" 0]
  by (simp add: ev_get_def init_hunter_def init_stats_def dd_get_def)

text \<open>
  The claim as worded fails: after one accepted login on a fresh engine the per-status
  counter of the entity for \<^verbatim>\<open>200\<close> holds the arrival time.
\<close>

theorem accepted_login_counterexample:
  "ingest_event sample_env (init_hunter 300 5 (Fin (3/10)))
     (syslog_event (Some ''1.2.3.4'') (Some ''accepted_login'')) 0
   = Inr ((init_hunter 300 5 (Fin (3/10)))\<lparr>stats := init_stats\<lparr>total_events := 1, per_ip_count := [(''1.2.3.4'', 1)]\<rparr>,
          events_by_ip := [''1.2.3.4'' \<mapsto> [0]],
          status_by_ip := [''1.2.3.4'' \<mapsto> [Some ''200'' \<mapsto> [0]]]\<rparr>)"
  by (simp add: ingest_event_def ev_get_def record_request_def
        init_hunter_def init_stats_def dd_get_def Let_def)

section \<open>Brute force\<close>

text \<open>
  C6. Starting with no failed login recorded for an entity, a run of failed logins for it,
  each arriving at most one window after the first, raises no alert while fewer than
  \<open>threshold\<close> of them have been ingested (in particular after \<open>threshold - 1\<close>), and once
  exactly \<open>threshold\<close> have been ingested exactly one alert has been raised: a
  \<^verbatim>\<open>bruteforce\<close> alert, critical, for that entity, with score
  \<open>9.0 + 0.5 * (N - threshold) = 9.0\<close>.
\<close>

theorem bruteforce_at_threshold:
  assumes "a \<noteq> []" and "0 < threshold s"
    and "dd_get (failed_logins_by_ip s) [] a = []"
    and "\<forall>ev \<in> set (map fst evs). ev ''type'' = Some (Some ''syslog'')
           \<and> ev_get ev ''event'' = Some ''failed_login'' \<and> ev_get ev ''ip'' = Some a"
    and "\<forall>t \<in> set (map snd evs). t - hd (map snd evs) \<le> of_int (window s)"
    and "int (length evs) \<le> threshold s"
  shows "\<exists>s'. ingest_all e s evs = Inr s'
           \<and> (if int (length evs) = threshold s
              then total_alerts (stats s') = total_alerts (stats s) + 1
                 \<and> last_alerts (stats s') = ring_append (last_alerts (stats s))
                      \<lparr>ts = utcnow e (total_alerts (stats s)), severity = ''critical'',
                       kind = ''bruteforce'', ip = Some a,
                       detail = str_int (threshold s) @ '' failed logins in ''
                                  @ str_int (window s) @ ''s'',
                       score = 9\<rparr>
              else total_alerts (stats s') = total_alerts (stats s)
                 \<and> last_alerts (stats s') = last_alerts (stats s))"
proof (cases "int (length evs) = threshold s")
  case False
  then have "int (length []) + int (length evs) < threshold s"
    using assms(6) by simp
  with failed_login_run_below[OF assms(1), of evs s "[]" e] assms(3,4,5) False
  show ?thesis by auto
next
  case True
  then have "evs \<noteq> []" using assms(2) by auto
  then obtain front x where evs: "evs = front @ [x]"
    by (metis rev_exhaust)
  obtain ev t where x: "x = (ev, t)" by (cases x)
  have len: "int (length front) + 1 = threshold s"
    using True evs by simp
  have hd_front: "hd (map snd front @ [t]) = hd (map snd evs)"
    using evs x by simp
  have "\<exists>s1. ingest_all e s front = Inr s1
          \<and> dd_get (failed_logins_by_ip s1) [] a = [] @ map snd front
          \<and> window s1 = window s \<and> threshold s1 = threshold s
          \<and> total_alerts (stats s1) = total_alerts (stats s)
          \<and> last_alerts (stats s1) = last_alerts (stats s)"
  proof (rule failed_login_run_below[OF assms(1)])
    show "\<forall>ev \<in> set (map fst front). ev ''type'' = Some (Some ''syslog'')
            \<and> ev_get ev ''event'' = Some ''failed_login'' \<and> ev_get ev ''ip'' = Some a"
      using assms(4) evs by simp
    show "dd_get (failed_logins_by_ip s) [] a = []" by (rule assms(3))
    show "int (length ([]::real list)) + int (length front) < threshold s"
      using len by simp
    show "\<forall>t \<in> set (map snd front). t - hd ([] @ map snd front) \<le> of_int (window s)"
    proof
      fix u assume u: "u \<in> set (map snd front)"
      then have "front \<noteq> []" by auto
      then have h: "hd (map snd front) = hd (map snd evs)" using evs by (cases front) simp_all
      have "u \<in> set (map snd evs)" using u evs by auto
      then have "u - hd (map snd evs) \<le> of_int (window s)" using assms(5) by blast
      then show "u - hd ([] @ map snd front) \<le> of_int (window s)"
        using h by simp
    qed
  qed
  then obtain s1 where s1: "ingest_all e s front = Inr s1"
      "dd_get (failed_logins_by_ip s1) [] a = map snd front"
      "window s1 = window s" "threshold s1 = threshold s"
      "total_alerts (stats s1) = total_alerts (stats s)"
      "last_alerts (stats s1) = last_alerts (stats s)"
    by auto
  have last_ev: "ev ''type'' = Some (Some ''syslog'')" "ev_get ev ''event'' = Some ''failed_login''"
      "ev_get ev ''ip'' = Some a"
    using assms(4) evs x by simp_all
  have within: "t - hd (map snd front @ [t]) \<le> of_int (window s1)"
    unfolding hd_front s1(3) using assms(5) evs x by simp
  obtain s2 where s2: "ingest_event e s1 ev t = Inr s2"
      "(if threshold s1 \<le> int (length (map snd front)) + 1
        then total_alerts (stats s2) = total_alerts (stats s1) + 1
           \<and> last_alerts (stats s2) = ring_append (last_alerts (stats s1))
                \<lparr>ts = utcnow e (total_alerts (stats s1)), severity = ''critical'',
                 kind = ''bruteforce'', ip = Some a,
                 detail = str_int (int (length (map snd front)) + 1) @ '' failed logins in ''
                            @ str_int (window s1) @ ''s'',
                 score = py_round2 (9 + (1 / 2)
                           * of_int (int (length (map snd front)) + 1 - threshold s1))\<rparr>
        else total_alerts (stats s2) = total_alerts (stats s1)
           \<and> last_alerts (stats s2) = last_alerts (stats s1))"
    using failed_login_step[OF last_ev assms(1) s1(2) within, of e] by auto
  have run: "ingest_all e s evs = Inr s2"
    using s1(1) s2(1) evs x by (simp add: ingest_all_append)
  have "total_alerts (stats s2) = total_alerts (stats s) + 1
        \<and> last_alerts (stats s2) = ring_append (last_alerts (stats s))
             \<lparr>ts = utcnow e (total_alerts (stats s)), severity = ''critical'',
              kind = ''bruteforce'', ip = Some a,
              detail = str_int (threshold s) @ '' failed logins in '' @ str_int (window s) @ ''s'',
              score = 9\<rparr>"
    using s2(2) len s1(3,4,5,6) by (simp add: py_round2_9)
  with run True show ?thesis by auto
qed

theorem bruteforce_at_threshold_witness:
  "\<exists>s'. ingest_all sample_env (init_hunter 60 3 (Fin (3/10)))
          [(syslog_event (Some ''1.2.3.4'') (Some ''failed_login''), 0),
           (syslog_event (Some ''1.2.3.4'') (Some ''failed_login''), 1),
           (syslog_event (Some ''1.2.3.4'') (Some ''failed_login''), 2)] = Inr s'
        \<and> total_alerts (stats s') = 1
        \<and> last_alerts (stats s') =
             [\<lparr>ts = ''alert-0'', severity = ''critical'', kind = ''bruteforce'',
               ip = Some ''1.2.3.4'', detail = ''3 failed logins in 60s'', score = 9\<rparr>]"
  using bruteforce_at_threshold[of "''1.2.3.4''" "init_hunter 60 3 (Fin (3/10))"
          "[(syslog_event (Some ''1.2.3.4'') (Some ''failed_login''), 0),
           (syslog_event (Some ''1.2.3.4'') (Some ''failed_login''), 1),
           (syslog_event (Some ''1.2.3.4'') (Some ''failed_login''), 2)]" sample_env]
  by (simp add: init_hunter_def init_stats_def dd_get_def ev_get_def ring_append_def
        str_int_def str_nat.simps digit_char_def)

section \<open>Status storms\<close>

text \<open>
  C7. For an nginx event that carries an entity and has status 403 or 404, let \<open>n\<close> be the
  in-window count of that status for the entity, the event included (for arrival times in
  non-decreasing order: the number of recorded times at most one window old). If \<open>n\<close>
  reaches the threshold, exactly one storm alert is raised for the event and stored after
  the alerts already buffered (of which only the newest 100 are kept): its kind is the status
  followed by \<^verbatim>\<open>_storm\<close>, its severity is high for 403 and medium for 404, and its score
  is \<open>7.0 + (n - threshold)\<close>. Below the threshold no storm alert is raised. The only other
  alerts of the call are at most one \<^verbatim>\<open>suspicious_path\<close> alert before it and at most one
  \<^verbatim>\<open>rate_anomaly\<close> alert after it.
\<close>

theorem status_storm_alert:
  assumes "ev ''type'' = Some (Some ''nginx'')"
    and "ev_get ev ''ip'' = Some a" and "a \<noteq> []"
    and "ev_get_default ev ''path'' [] = Some p"
    and "ev_get_default ev ''status'' [] = Some st" and "st = ''403'' \<or> st = ''404''"
    and "dq = dd_get (dd_get (status_by_ip s) Map.empty a) [] (Some st) @ [now]"
    and "n = int (length (prune_window (window s) now dq))"
    and "length (last_alerts (stats s)) \<le> 100"
  shows "\<exists>s' pre post. ingest_event e s ev now = Inr s'
           \<and> (\<forall>x \<in> set pre. kind x = ''suspicious_path'') \<and> length pre \<le> 1
           \<and> (\<forall>x \<in> set post. kind x = ''rate_anomaly'') \<and> length post \<le> 1
           \<and> last_alerts (stats s') =
               drop (length (last_alerts (stats s)) + length pre
                       + (if threshold s \<le> n then 1 else 0) + length post - 100)
                 (last_alerts (stats s) @ pre
                    @ (if threshold s \<le> n
                       then [\<lparr>ts = utcnow e (total_alerts (stats s) + int (length pre)),
                              severity = (if st = ''403'' then ''high'' else ''medium''),
                              kind = st @ ''_storm'', ip = Some a,
                              detail = str_int n @ '' '' @ st @ ''s in ''
                                         @ str_int (window s) @ ''s'',
                              score = 7 + of_int (n - threshold s)\<rparr>]
                       else [])
                    @ post)
           \<and> total_alerts (stats s') =
               total_alerts (stats s) + int (length pre) + (if threshold s \<le> n then 1 else 0)
                 + int (length post)
           \<and> (sorted dq \<longrightarrow>
                 n = int (length (filter (\<lambda>t. now - t \<le> of_int (window s)) dq)))"
proof -
  obtain s2 pre where run: "ingest_event e s ev now =
             Inr (check_rate_anomaly e
                    (if Some st = Some ''403'' then check_status_storm e s2 (Some a) ''403'' now
                     else if Some st = Some ''404'' then check_status_storm e s2 (Some a) ''404'' now
                     else s2) (Some a) now)"
    and s2: "window s2 = window s" "threshold s2 = threshold s"
    and cnt: "dd_get (dd_get (status_by_ip s2) Map.empty a) [] (Some st)
              = prune_window (window s) now
                  (dd_get (dd_get (status_by_ip s) Map.empty a) [] (Some st) @ [now])"
    and pre: "\<forall>x \<in> set pre. kind x = ''suspicious_path''" "length pre \<le> 1"
      "last_alerts (stats s2) = foldl ring_append (last_alerts (stats s)) pre"
      "total_alerts (stats s2) = total_alerts (stats s) + int (length pre)"
    using ingest_nginx_until_storm[OF assms(1-5), of e s now] by blast
  define s3 where "s3 = check_status_storm e s2 (Some a) st now"
  have run3: "ingest_event e s ev now = Inr (check_rate_anomaly e s3 (Some a) now)"
    using run assms(6) by (auto simp: s3_def)
  have n2: "n = int (length (prune_window (window s2) now
                   (dd_get (dd_get (status_by_ip s2) Map.empty a) [] (Some st))))"
    by (simp add: cnt s2 prune_window_idem assms(7,8))
  define storm where "storm = (if threshold s \<le> n
                         then [\<lparr>ts = utcnow e (total_alerts (stats s) + int (length pre)),
                                severity = (if st = ''403'' then ''high'' else ''medium''),
                                kind = st @ ''_storm'', ip = Some a,
                                detail = str_int n @ '' '' @ st @ ''s in ''
                                           @ str_int (window s) @ ''s'',
                                score = 7 + of_int (n - threshold s)\<rparr>]
                         else [])"
  have sev: "(if st = ''404'' then ''medium'' else ''high'')
               = (if st = ''403'' then ''high'' else ''medium'')"
    using assms(6) by auto
  have s3a: "last_alerts (stats s3) = foldl ring_append (last_alerts (stats s)) (pre @ storm)"
      "total_alerts (stats s3)
         = total_alerts (stats s) + int (length pre) + (if threshold s \<le> n then 1 else 0)"
    using check_status_storm_stats[OF assms(3) n2, of e]
    by (simp_all add: s3_def storm_def pre s2 sev)
  define m where "m = int (length (prune_window (window s3) now (dd_get (events_by_ip s3) [] a)))"
  define rate where "rate = real_of_int m / of_int (max (window s3) 1)"
  define z where
    "z = zscore (update (dd_get (rate_model s3) (new_ewma (ewma_alpha s3)) a) (Fin rate)) (Fin rate)"
  define post where "post = (case z of NaN \<Rightarrow> []
                    | Fin zr \<Rightarrow>
                        if 3 < zr \<and> threshold s3 < m
                        then [\<lparr>ts = utcnow e (total_alerts (stats s3)), severity = ''high'',
                               kind = ''rate_anomaly'', ip = Some a,
                               detail = ''z='' @ fmt2 e zr @ '', rate='' @ fmt3 e rate @ '' req/s'',
                               score = min 10 (75 / 10 + zr)\<rparr>]
                        else [])"
  let ?s' = "check_rate_anomaly e s3 (Some a) now"
  have s4a: "last_alerts (stats ?s')
               = foldl ring_append (last_alerts (stats s)) (pre @ storm @ post)"
      "total_alerts (stats ?s') = total_alerts (stats s) + int (length pre)
          + (if threshold s \<le> n then 1 else 0) + int (length post)"
    using check_rate_anomaly_stats(1,2)[OF assms(3) m_def rate_def z_def post_def]
    by (simp_all add: s3a)
  have post: "\<forall>x \<in> set post. kind x = ''rate_anomaly''" "length post \<le> 1"
    by (auto simp: post_def split: pyfloat.splits if_splits)
  have len: "length (pre @ storm @ post)
               = length pre + (if threshold s \<le> n then 1 else 0) + length post"
    by (simp add: storm_def)
  have la: "last_alerts (stats ?s') =
               drop (length (last_alerts (stats s)) + length pre
                       + (if threshold s \<le> n then 1 else 0) + length post - 100)
                 (last_alerts (stats s) @ pre @ storm @ post)"
    using ring_appends[OF assms(9), of "pre @ storm @ post"] s4a(1) len
    by (simp add: add.assoc)
  have cntf: "sorted dq \<longrightarrow>
                n = int (length (filter (\<lambda>t. now - t \<le> of_int (window s)) dq))"
    using prune_window_sorted_filter[of dq "window s" now] assms(8) by simp
  show ?thesis
    using run3 pre(1,2) post la s4a(2) cntf unfolding storm_def by blast
qed

text \<open>
  An entity with one 404 response at time 0 and four more at 61 to 64, window 60 and
  threshold 5: a sixth 404 response at time 65 drops the first from the window, the count
  is 5 and a \<^verbatim>\<open>404_storm\<close> alert with score 7 is stored; the state after the call is
\<close>

theorem status_storm_alert_witness:
  "ingest_event sample_env
     \<lparr>window = 60, threshold = 5, ewma_alpha = Fin (3/10),
      stats = \<lparr>total_lines = 0, total_events = 5, total_alerts = 0,
               per_ip_count = [(''9.9.9.9'', 5)], last_alerts = []\<rparr>,
      events_by_ip = [''9.9.9.9'' \<mapsto> [0, 61, 62, 63, 64]],
      failed_logins_by_ip = Map.empty,
      status_by_ip = [''9.9.9.9'' \<mapsto> [Some ''404'' \<mapsto> [0, 61, 62, 63, 64]]],
      rate_model = [''9.9.9.9'' \<mapsto>
                      \<lparr>alpha = Fin (3/10), mean = Fin (1/12), var = Fin 1, initialized = True\<rparr>]\<rparr>
     (nginx_event (Some ''9.9.9.9'') ''/index.html'' ''404'') 65
   = Inr \<lparr>window = 60, threshold = 5, ewma_alpha = Fin (3/10),
      stats = \<lparr>total_lines = 0, total_events = 6, total_alerts = 1,
               per_ip_count = [(''9.9.9.9'', 6)],
               last_alerts = [\<lparr>ts = ''alert-0'', severity = ''medium'', kind = ''404_storm'',
                                ip = Some ''9.9.9.9'', detail = ''5 404s in 60s'', score = 7\<rparr>]\<rparr>,
      events_by_ip = [''9.9.9.9'' \<mapsto> [61, 62, 63, 64, 65]],
      failed_logins_by_ip = Map.empty,
      status_by_ip = [''9.9.9.9'' \<mapsto> [Some ''404'' \<mapsto> [61, 62, 63, 64, 65]]],
      rate_model = [''9.9.9.9'' \<mapsto>
                      \<lparr>alpha = Fin (3/10), mean = Fin (1/12), var = Fin (7/10),
                       initialized = True\<rparr>]\<rparr>"
proof -
  let ?S = "\<lparr>window = 60, threshold = 5, ewma_alpha = Fin (3/10),
      stats = \<lparr>total_lines = 0, total_events = 5, total_alerts = 0,
               per_ip_count = [(''9.9.9.9'', 5)], last_alerts = []\<rparr>,
      events_by_ip = [''9.9.9.9'' \<mapsto> [0, 61, 62, 63, 64]],
      failed_logins_by_ip = Map.empty,
      status_by_ip = [''9.9.9.9'' \<mapsto> [Some ''404'' \<mapsto> [0, 61, 62, 63, 64]]],
      rate_model = [''9.9.9.9'' \<mapsto>
                      \<lparr>alpha = Fin (3/10), mean = Fin (1/12), var = Fin 1, initialized = True\<rparr>]\<rparr>"
  let ?ev = "nginx_event (Some ''9.9.9.9'') ''/index.html'' ''404''"
  have h1: "?ev ''type'' = Some (Some ''nginx'')" by simp
  have h2: "ev_get ?ev ''ip'' = Some ''9.9.9.9''" by (simp add: ev_get_def)
  have h3: "''9.9.9.9'' \<noteq> []" by simp
  have h4: "ev_get_default ?ev ''path'' [] = Some ''/index.html''"
    by (simp add: ev_get_default_def)
  have h5: "ev_get_default ?ev ''status'' [] = Some ''404''" by (simp add: ev_get_default_def)
  have h6: "''404'' = ''403'' \<or> ''404'' = ''404''" by simp
  have h7: "[0, 61, 62, 63, 64, 65 :: real]
              = dd_get (dd_get (status_by_ip ?S) Map.empty ''9.9.9.9'') [] (Some ''404'') @ [65]"
    by (simp add: dd_get_def)
  have h8: "5 = int (length (prune_window (window ?S) 65 [0, 61, 62, 63, 64, 65]))" by simp
  have h9: "length (last_alerts (stats ?S)) \<le> 100" by simp
  obtain s' where inst: "ingest_event sample_env ?S ?ev 65 = Inr s'"
    using status_storm_alert[OF h1 h2 h3 h4 h5 h6 h7 h8 h9, of sample_env] by blast
  have run: "ingest_event sample_env ?S ?ev 65
   = Inr \<lparr>window = 60, threshold = 5, ewma_alpha = Fin (3/10),
      stats = \<lparr>total_lines = 0, total_events = 6, total_alerts = 1,
               per_ip_count = [(''9.9.9.9'', 6)],
               last_alerts = [\<lparr>ts = ''alert-0'', severity = ''medium'', kind = ''404_storm'',
                                ip = Some ''9.9.9.9'', detail = ''5 404s in 60s'', score = 7\<rparr>]\<rparr>,
      events_by_ip = [''9.9.9.9'' \<mapsto> [61, 62, 63, 64, 65]],
      failed_logins_by_ip = Map.empty,
      status_by_ip = [''9.9.9.9'' \<mapsto> [Some ''404'' \<mapsto> [61, 62, 63, 64, 65]]],
      rate_model = [''9.9.9.9'' \<mapsto>
                      \<lparr>alpha = Fin (3/10), mean = Fin (1/12), var = Fin (7/10),
                       initialized = True\<rparr>]\<rparr>"
    apply (simp add: ingest_event_def ev_get_def ev_get_default_def SUSPICIOUS_PATHS_def Let_def)
    apply (simp add: record_request_def dd_get_def Let_def)
    apply (simp add: check_status_storm_def dd_get_def Let_def alert_emit_def ring_append_def
             py_round2_Ints str_int_def str_nat.simps digit_char_def)
    apply (simp add: check_rate_anomaly_def dd_get_def Let_def update_def zscore_def fmax_def
             power2_eq_square)
    done
  from inst run show ?thesis by simp
qed

section \<open>Rate anomalies\<close>

lemma update_initialized:
  "update \<lparr>alpha = Fin al, mean = Fin mu, var = Fin v, initialized = True\<rparr> (Fin x)
     = \<lparr>alpha = Fin al, mean = Fin (al * x + (1 - al) * mu),
        var = Fin (al * (x - mu)\<^sup>2 + (1 - al) * v), initialized = True\<rparr>"
  by (simp add: update_def Let_def)

lemma update_uninitialized:
  "\<not> initialized M \<Longrightarrow> update M x = M\<lparr>mean := x, var := Fin 1, initialized := True\<rparr>"
  by (simp add: update_def)

lemma zscore_uninitialized:
  "\<not> initialized M \<Longrightarrow> zscore (update M (Fin x)) (Fin x) = Fin 0"
  by (simp add: update_uninitialized zscore_finite_var[of _ 1])

text \<open>
  C8. For an nginx event that carries an entity, with a positive window, let \<open>m\<close> be the
  in-window count of all requests of the entity, the event included (for arrival times in
  non-decreasing order: the number of recorded times at most one window old),
  \<open>rate = m / window\<close>, and \<open>z\<close> the z-score of \<open>rate\<close> in the entity's model after the
  model was updated with \<open>rate\<close>: a first observation sets the mean to \<open>rate\<close> and the
  variance to 1 (so \<open>z = 0\<close>), a later one moves the mean to
  \<open>alpha * rate + (1 - alpha) * mean\<close> and the variance to
  \<open>alpha * (rate - mean)\<^sup>2 + (1 - alpha) * variance\<close>. A \<^verbatim>\<open>rate_anomaly\<close> alert is raised if
  and only if \<open>z > 3.0\<close> and \<open>m > threshold\<close>; it is stored as the last alert of the call,
  after the alerts already buffered (of which only the newest 100 are kept), its severity
  is high and its score is \<open>min(10.0, 7.5 + z)\<close>. The alerts raised before it in the call
  are at most one \<^verbatim>\<open>suspicious_path\<close> and one storm alert.
\<close>

theorem rate_anomaly_alert:
  assumes "ev ''type'' = Some (Some ''nginx'')"
    and "ev_get ev ''ip'' = Some a" and "a \<noteq> []"
    and "ev_get_default ev ''path'' [] = Some p"
    and "0 < window s"
    and "dq = dd_get (events_by_ip s) [] a @ [now]"
    and "m = int (length (prune_window (window s) now dq))"
    and "rate = real_of_int m / of_int (window s)"
    and "M = dd_get (rate_model s) (new_ewma (ewma_alpha s)) a"
    and "z = zscore (update M (Fin rate)) (Fin rate)"
    and "length (last_alerts (stats s)) \<le> 100"
  shows "\<exists>s' pre. ingest_event e s ev now = Inr s'
           \<and> (\<forall>x \<in> set pre. kind x = ''suspicious_path'' \<or> kind x = ''403_storm''
                               \<or> kind x = ''404_storm'')
           \<and> length pre \<le> 2
           \<and> rate_model s' a = Some (update M (Fin rate))
           \<and> last_alerts (stats s') =
               drop (length (last_alerts (stats s)) + length pre
                       + (case z of NaN \<Rightarrow> 0
                          | Fin zr \<Rightarrow> if 3 < zr \<and> threshold s < m then 1 else 0) - 100)
                 (last_alerts (stats s) @ pre
                    @ (case z of NaN \<Rightarrow> []
                       | Fin zr \<Rightarrow>
                           if 3 < zr \<and> threshold s < m
                           then [\<lparr>ts = utcnow e (total_alerts (stats s) + int (length pre)),
                                  severity = ''high'', kind = ''rate_anomaly'', ip = Some a,
                                  detail = ''z='' @ fmt2 e zr @ '', rate='' @ fmt3 e rate
                                             @ '' req/s'',
                                  score = min 10 (75 / 10 + zr)\<rparr>]
                           else []))
           \<and> total_alerts (stats s') =
               total_alerts (stats s) + int (length pre)
                 + (case z of NaN \<Rightarrow> 0
                    | Fin zr \<Rightarrow> if 3 < zr \<and> threshold s < m then 1 else 0)
           \<and> (sorted dq \<longrightarrow>
                 m = int (length (filter (\<lambda>t. now - t \<le> of_int (window s)) dq)))
           \<and> (\<not> initialized M \<longrightarrow>
                 update M (Fin rate) = M\<lparr>mean := Fin rate, var := Fin 1, initialized := True\<rparr>
                 \<and> z = Fin 0)
           \<and> (\<forall>al mu v.
                 M = \<lparr>alpha = Fin al, mean = Fin mu, var = Fin v, initialized = True\<rparr> \<longrightarrow>
                 update M (Fin rate)
                   = \<lparr>alpha = Fin al, mean = Fin (al * rate + (1 - al) * mu),
                      var = Fin (al * (rate - mu)\<^sup>2 + (1 - al) * v), initialized = True\<rparr>
                 \<and> z = Fin ((rate - (al * rate + (1 - al) * mu))
                             / sqrt (max (al * (rate - mu)\<^sup>2 + (1 - al) * v) (1 / 1000000))))"
proof -
  define sto where "sto = ev_get_default ev ''status'' []"
  obtain s2 pre0 where run: "ingest_event e s ev now =
             Inr (check_rate_anomaly e
                    (if sto = Some ''403'' then check_status_storm e s2 (Some a) ''403'' now
                     else if sto = Some ''404'' then check_status_storm e s2 (Some a) ''404'' now
                     else s2) (Some a) now)"
    and s2: "window s2 = window s" "threshold s2 = threshold s" "ewma_alpha s2 = ewma_alpha s"
      "rate_model s2 = rate_model s"
    and cnt: "dd_get (events_by_ip s2) [] a
              = prune_window (window s) now (dd_get (events_by_ip s) [] a @ [now])"
    and pre0: "\<forall>x \<in> set pre0. kind x = ''suspicious_path''" "length pre0 \<le> 1"
      "last_alerts (stats s2) = foldl ring_append (last_alerts (stats s)) pre0"
      "total_alerts (stats s2) = total_alerts (stats s) + int (length pre0)"
    using ingest_nginx_until_storm[OF assms(1-4) sto_def[symmetric], of e s now] by blast
  define s3 where "s3 = (if sto = Some ''403'' then check_status_storm e s2 (Some a) ''403'' now
               else if sto = Some ''404'' then check_status_storm e s2 (Some a) ''404'' now
               else s2)"
  have s3: "window s3 = window s" "threshold s3 = threshold s" "ewma_alpha s3 = ewma_alpha s"
      "rate_model s3 = rate_model s" "events_by_ip s3 = events_by_ip s2"
    by (simp_all add: s3_def check_status_storm_frame s2)
  obtain storm where storm: "\<forall>x \<in> set storm. kind x = ''403_storm'' \<or> kind x = ''404_storm''"
      "length storm \<le> 1"
      "last_alerts (stats s3) = foldl ring_append (last_alerts (stats s2)) storm"
      "total_alerts (stats s3) = total_alerts (stats s2) + int (length storm)"
    using storm_step_alerts[OF assms(3) s3_def] by blast
  define pre where "pre = pre0 @ storm"
  have pre: "\<forall>x \<in> set pre. kind x = ''suspicious_path'' \<or> kind x = ''403_storm''
                               \<or> kind x = ''404_storm''" "length pre \<le> 2"
    using pre0(1,2) storm(1,2) by (auto simp: pre_def)
  have s3a: "last_alerts (stats s3) = foldl ring_append (last_alerts (stats s)) pre"
      "total_alerts (stats s3) = total_alerts (stats s) + int (length pre)"
    by (simp_all add: pre_def storm pre0)
  have m3: "m = int (length (prune_window (window s3) now (dd_get (events_by_ip s3) [] a)))"
    by (simp add: s3 cnt prune_window_idem assms(6,7))
  have w: "max (window s3) 1 = window s" using assms(5) s3(1) by simp
  have rate3: "rate = real_of_int m / of_int (max (window s3) 1)"
    by (simp add: w assms(8))
  have z3: "z = zscore (update (dd_get (rate_model s3) (new_ewma (ewma_alpha s3)) a) (Fin rate))
                  (Fin rate)"
    by (simp add: s3 assms(9,10))
  define anomaly where "anomaly = (case z of NaN \<Rightarrow> []
                    | Fin zr \<Rightarrow>
                        if 3 < zr \<and> threshold s3 < m
                        then [\<lparr>ts = utcnow e (total_alerts (stats s3)), severity = ''high'',
                               kind = ''rate_anomaly'', ip = Some a,
                               detail = ''z='' @ fmt2 e zr @ '', rate='' @ fmt3 e rate @ '' req/s'',
                               score = min 10 (75 / 10 + zr)\<rparr>]
                        else [])"
  let ?s' = "check_rate_anomaly e s3 (Some a) now"
  have run3: "ingest_event e s ev now = Inr ?s'"
    using run by (simp add: s3_def)
  have model: "rate_model ?s' a = Some (update M (Fin rate))"
    using check_rate_anomaly_stats(3)[OF assms(3) m3 rate3 z3 anomaly_def]
    by (simp add: s3 assms(9))
  have an: "anomaly = (case z of NaN \<Rightarrow> []
                       | Fin zr \<Rightarrow>
                           if 3 < zr \<and> threshold s < m
                           then [\<lparr>ts = utcnow e (total_alerts (stats s) + int (length pre)),
                                  severity = ''high'', kind = ''rate_anomaly'', ip = Some a,
                                  detail = ''z='' @ fmt2 e zr @ '', rate='' @ fmt3 e rate
                                             @ '' req/s'',
                                  score = min 10 (75 / 10 + zr)\<rparr>]
                           else [])"
    by (simp add: anomaly_def s3 s3a split: pyfloat.split)
  have alen: "length anomaly
                = (case z of NaN \<Rightarrow> 0 | Fin zr \<Rightarrow> if 3 < zr \<and> threshold s < m then 1 else 0)"
    by (simp add: an split: pyfloat.split)
  have la0: "last_alerts (stats ?s') = foldl ring_append (last_alerts (stats s)) (pre @ anomaly)"
    using check_rate_anomaly_stats(2)[OF assms(3) m3 rate3 z3 anomaly_def]
    by (simp add: s3a)
  have la: "last_alerts (stats ?s') =
               drop (length (last_alerts (stats s)) + length pre
                       + (case z of NaN \<Rightarrow> 0
                          | Fin zr \<Rightarrow> if 3 < zr \<and> threshold s < m then 1 else 0) - 100)
                 (last_alerts (stats s) @ pre @ anomaly)"
    using ring_appends[OF assms(11), of "pre @ anomaly"] la0 alen
    by (simp add: add.assoc)
  have ta: "total_alerts (stats ?s') =
               total_alerts (stats s) + int (length pre)
                 + (case z of NaN \<Rightarrow> 0
                    | Fin zr \<Rightarrow> if 3 < zr \<and> threshold s < m then 1 else 0)"
    using check_rate_anomaly_stats(1)[OF assms(3) m3 rate3 z3 anomaly_def] alen
    by (simp add: s3a split: pyfloat.split)
  have cntf: "sorted dq \<longrightarrow>
                m = int (length (filter (\<lambda>t. now - t \<le> of_int (window s)) dq))"
    using prune_window_sorted_filter[of dq "window s" now] assms(7) by simp
  have fresh: "\<not> initialized M \<longrightarrow>
                 update M (Fin rate) = M\<lparr>mean := Fin rate, var := Fin 1, initialized := True\<rparr>
                 \<and> z = Fin 0"
    using update_uninitialized[of M "Fin rate"] zscore_uninitialized[of M rate]
    by (simp add: assms(10))
  have warm: "\<forall>al mu v.
                 M = \<lparr>alpha = Fin al, mean = Fin mu, var = Fin v, initialized = True\<rparr> \<longrightarrow>
                 update M (Fin rate)
                   = \<lparr>alpha = Fin al, mean = Fin (al * rate + (1 - al) * mu),
                      var = Fin (al * (rate - mu)\<^sup>2 + (1 - al) * v), initialized = True\<rparr>
                 \<and> z = Fin ((rate - (al * rate + (1 - al) * mu))
                             / sqrt (max (al * (rate - mu)\<^sup>2 + (1 - al) * v) (1 / 1000000)))"
  proof (intro allI impI)
    fix al mu v
    assume M: "M = \<lparr>alpha = Fin al, mean = Fin mu, var = Fin v, initialized = True\<rparr>"
    have u: "update M (Fin rate)
               = \<lparr>alpha = Fin al, mean = Fin (al * rate + (1 - al) * mu),
                  var = Fin (al * (rate - mu)\<^sup>2 + (1 - al) * v), initialized = True\<rparr>"
      unfolding M by (rule update_initialized)
    have "z = Fin ((rate - (al * rate + (1 - al) * mu))
                     / sqrt (max (al * (rate - mu)\<^sup>2 + (1 - al) * v) (1 / 1000000)))"
      unfolding assms(10) u
      by (subst zscore_finite_var[of _ "al * (rate - mu)\<^sup>2 + (1 - al) * v"]) simp_all
    with u show "update M (Fin rate)
                   = \<lparr>alpha = Fin al, mean = Fin (al * rate + (1 - al) * mu),
                      var = Fin (al * (rate - mu)\<^sup>2 + (1 - al) * v), initialized = True\<rparr>
                 \<and> z = Fin ((rate - (al * rate + (1 - al) * mu))
                             / sqrt (max (al * (rate - mu)\<^sup>2 + (1 - al) * v) (1 / 1000000)))"
      by simp
  qed
  show ?thesis
    using run3 pre model la ta cntf fresh warm unfolding an by blast
qed

text \<open>
  An entity with one request at time 10 and four more between 15 and 15.3, a window of one
  second, threshold 1, and a model with \<open>alpha = 0.01\<close>, mean 1 and variance 1: a request
  at 15.4 drops the first from the window, the rate is 5, the model moves to mean
  \<open>1.04\<close> and variance \<open>1.15\<close>, the z-score \<open>3.96 / sqrt 1.15\<close> is above 3 and a
  \<^verbatim>\<open>rate_anomaly\<close> alert with score 10 is stored; the state after the call is
\<close>

lemma burst_zscore: "3 < 99 / (25 * sqrt (23 / 20))"
proof -
  have "sqrt (23 / 20) < 33 / 25"
    by (rule real_less_lsqrt) (simp_all add: power2_eq_square)
  then have "3 * (25 * sqrt (23 / 20)) < 99" by simp
  moreover have "0 < 25 * sqrt (23 / 20 :: real)" by simp
  ultimately show ?thesis by (simp only: pos_less_divide_eq)
qed

theorem rate_anomaly_alert_witness:
  "ingest_event sample_env
     \<lparr>window = 1, threshold = 1, ewma_alpha = Fin (1/100),
      stats = \<lparr>total_lines = 0, total_events = 5, total_alerts = 0,
               per_ip_count = [(''5.6.7.8'', 5)], last_alerts = []\<rparr>,
      events_by_ip = [''5.6.7.8'' \<mapsto> [10, 15, 151/10, 152/10, 153/10]],
      failed_logins_by_ip = Map.empty,
      status_by_ip = [''5.6.7.8'' \<mapsto> [Some ''200'' \<mapsto> [10, 15, 151/10, 152/10, 153/10]]],
      rate_model = [''5.6.7.8'' \<mapsto>
                      \<lparr>alpha = Fin (1/100), mean = Fin 1, var = Fin 1, initialized = True\<rparr>]\<rparr>
     (nginx_event (Some ''5.6.7.8'') ''/index.html'' ''200'') (154/10)
   = Inr \<lparr>window = 1, threshold = 1, ewma_alpha = Fin (1/100),
      stats = \<lparr>total_lines = 0, total_events = 6, total_alerts = 1,
               per_ip_count = [(''5.6.7.8'', 6)],
               last_alerts = [\<lparr>ts = ''alert-0'', severity = ''high'', kind = ''rate_anomaly'',
                                ip = Some ''5.6.7.8'', detail = ''z=?, rate=? req/s'',
                                score = 10\<rparr>]\<rparr>,
      events_by_ip = [''5.6.7.8'' \<mapsto> [15, 151/10, 152/10, 153/10, 154/10]],
      failed_logins_by_ip = Map.empty,
      status_by_ip = [''5.6.7.8'' \<mapsto> [Some ''200'' \<mapsto> [15, 151/10, 152/10, 153/10, 154/10]]],
      rate_model = [''5.6.7.8'' \<mapsto>
                      \<lparr>alpha = Fin (1/100), mean = Fin (26/25), var = Fin (23/20),
                       initialized = True\<rparr>]\<rparr>"
proof -
  let ?M = "\<lparr>alpha = Fin (1/100), mean = Fin 1, var = Fin 1, initialized = True\<rparr>"
  let ?S = "\<lparr>window = 1, threshold = 1, ewma_alpha = Fin (1/100),
      stats = \<lparr>total_lines = 0, total_events = 5, total_alerts = 0,
               per_ip_count = [(''5.6.7.8'', 5)], last_alerts = []\<rparr>,
      events_by_ip = [''5.6.7.8'' \<mapsto> [10, 15, 151/10, 152/10, 153/10]],
      failed_logins_by_ip = Map.empty,
      status_by_ip = [''5.6.7.8'' \<mapsto> [Some ''200'' \<mapsto> [10, 15, 151/10, 152/10, 153/10]]],
      rate_model = [''5.6.7.8'' \<mapsto> ?M]\<rparr>"
  let ?ev = "nginx_event (Some ''5.6.7.8'') ''/index.html'' ''200''"
  have h1: "?ev ''type'' = Some (Some ''nginx'')" by simp
  have h2: "ev_get ?ev ''ip'' = Some ''5.6.7.8''" by (simp add: ev_get_def)
  have h3: "''5.6.7.8'' \<noteq> []" by simp
  have h4: "ev_get_default ?ev ''path'' [] = Some ''/index.html''"
    by (simp add: ev_get_default_def)
  have h5: "0 < window ?S" by simp
  have h6: "[10, 15, 151/10, 152/10, 153/10, 154/10 :: real]
              = dd_get (events_by_ip ?S) [] ''5.6.7.8'' @ [154/10]"
    by (simp add: dd_get_def)
  have h7: "5 = int (length (prune_window (window ?S) (154/10)
                               [10, 15, 151/10, 152/10, 153/10, 154/10]))"
    by simp
  have h8: "(5::real) = real_of_int 5 / of_int (window ?S)" by simp
  have h9: "?M = dd_get (rate_model ?S) (new_ewma (ewma_alpha ?S)) ''5.6.7.8''"
    by (simp add: dd_get_def)
  have h10: "zscore (update ?M (Fin 5)) (Fin 5) = zscore (update ?M (Fin 5)) (Fin 5)" by simp
  have h11: "length (last_alerts (stats ?S)) \<le> 100" by simp
  obtain s' where inst: "ingest_event sample_env ?S ?ev (154/10) = Inr s'"
      "rate_model s' ''5.6.7.8'' = Some (update ?M (Fin 5))"
    using rate_anomaly_alert[OF h1 h2 h3 h4 h5 h6 h7 h8 h9 h10 h11, of sample_env] by blast
  have run: "ingest_event sample_env ?S ?ev (154/10)
   = Inr \<lparr>window = 1, threshold = 1, ewma_alpha = Fin (1/100),
      stats = \<lparr>total_lines = 0, total_events = 6, total_alerts = 1,
               per_ip_count = [(''5.6.7.8'', 6)],
               last_alerts = [\<lparr>ts = ''alert-0'', severity = ''high'', kind = ''rate_anomaly'',
                                ip = Some ''5.6.7.8'', detail = ''z=?, rate=? req/s'',
                                score = 10\<rparr>]\<rparr>,
      events_by_ip = [''5.6.7.8'' \<mapsto> [15, 151/10, 152/10, 153/10, 154/10]],
      failed_logins_by_ip = Map.empty,
      status_by_ip = [''5.6.7.8'' \<mapsto> [Some ''200'' \<mapsto> [15, 151/10, 152/10, 153/10, 154/10]]],
      rate_model = [''5.6.7.8'' \<mapsto>
                      \<lparr>alpha = Fin (1/100), mean = Fin (26/25), var = Fin (23/20),
                       initialized = True\<rparr>]\<rparr>"
    apply (simp add: ingest_event_def ev_get_def ev_get_default_def SUSPICIOUS_PATHS_def Let_def)
    apply (simp add: record_request_def dd_get_def Let_def)
    apply (simp add: check_rate_anomaly_def dd_get_def Let_def update_def zscore_def fmax_def
             power2_eq_square)
    apply (simp add: burst_zscore alert_emit_def ring_append_def py_round2_10
             str_int_def str_nat.simps digit_char_def)
    done
  from inst run show ?thesis by simp
qed

end
